theory Spec2Isabelle
  imports Main "HOL-Library.Word" "HOL-Library.Sublist" "HOL-Library.List_Lexorder"
begin

section \<open>Strings and POSIX paths\<close>

text \<open>
  A JavaScript string is the list of its UTF-16 code units, and \<open>js\<close> writes the string
  of an ASCII literal. Equality, \<open>includes\<close>, \<open>trim\<close> and the comparison \<open><\<close> of
  JavaScript all work on code units; the order on \<open>jsstring\<close> is the lexicographic
  order on the code units, which is the one \<open><\<close> computes. The helpers below are the
  library functions the source calls: \<open>String.prototype.trim\<close>,
  \<open>String.prototype.includes\<close>, \<open>untildify\<close>, and the POSIX flavour of Node's \<open>path\<close>
  module (\<open>isAbsolute\<close>, \<open>resolve\<close>, \<open>relative\<close>).
\<close>

type_synonym jsstring = "16 word list"

definition js :: "string \<Rightarrow> jsstring" where
  "js s = map (\<lambda>c. of_nat (of_char c)) s"

text \<open>
  The code units \<open>trim\<close> strips: the white space of ECMAScript (tab, vertical tab, form
  feed, space, no-break space, the byte order mark and the other space separators of
  Unicode) and its line terminators (line feed, carriage return, U+2028, U+2029).
\<close>

definition is_space :: "16 word \<Rightarrow> bool" where
  "is_space c =
     (c \<in> set [0x09, 0x0A, 0x0B, 0x0C, 0x0D, 0x20, 0xA0, 0x1680, 0x2028, 0x2029, 0x202F,
               0x205F, 0x3000, 0xFEFF]
      \<or> (0x2000 \<le> c \<and> c \<le> 0x200A))"

definition js_trim :: "jsstring \<Rightarrow> jsstring" where
  "js_trim s = rev (dropWhile is_space (rev (dropWhile is_space s)))"

fun str_includes :: "jsstring \<Rightarrow> jsstring \<Rightarrow> bool" where
  "str_includes [] sub = (sub = [])"
| "str_includes (c # cs) sub = (prefix sub (c # cs) \<or> str_includes cs sub)"

text \<open>
  The replacement text of \<open>String.prototype.replace\<close> for a pattern without capture
  groups that matched at the start of the string: \<open>$$\<close> stands for \<open>$\<close>, \<open>$&\<close> for the
  matched text, \<open>$`\<close> for the text before the match (none) and \<open>$'\<close> for the text
  after it; every other code unit stands for itself.
\<close>

fun substitution :: "jsstring \<Rightarrow> jsstring \<Rightarrow> jsstring \<Rightarrow> jsstring" where
  "substitution [] matched after = []"
| "substitution [c] matched after = [c]"
| "substitution (c # d # t) matched after =
     (if c = 0x24 \<and> d = 0x24 then 0x24 # substitution t matched after
      else if c = 0x24 \<and> d = 0x26 then matched @ substitution t matched after
      else if c = 0x24 \<and> d = 0x60 then substitution t matched after
      else if c = 0x24 \<and> d = 0x27 then after @ substitution t matched after
      else c # substitution (d # t) matched after)"

text \<open>
  \<open>untildify\<close>: when the home directory is a non-empty string, a leading \<open>~\<close> (0x7E) that
  is the whole path or is followed by a slash (0x2F) or a backslash (0x5C) is replaced,
  by \<open>pathWithTilde.replace(/^~(?=$|\/|\\)/, homeDirectory)\<close>, with the home directory as
  the replacement text.
\<close>

definition untildify :: "jsstring \<Rightarrow> jsstring \<Rightarrow> jsstring" where
  "untildify homeDirectory pathWithTilde =
     (if homeDirectory = [] then pathWithTilde
      else (case pathWithTilde of
              [] \<Rightarrow> pathWithTilde
            | c # rest \<Rightarrow>
                if c = 0x7E \<and> (rest = [] \<or> hd rest = 0x2F \<or> hd rest = 0x5C)
                then substitution homeDirectory [0x7E] rest @ rest
                else pathWithTilde))"

definition isAbsolute :: "jsstring \<Rightarrow> bool" where
  "isAbsolute p = (case p of [] \<Rightarrow> False | c # _ \<Rightarrow> c = 0x2F)"

fun split_slash :: "jsstring \<Rightarrow> jsstring \<Rightarrow> jsstring list" where
  "split_slash cur [] = [rev cur]"
| "split_slash cur (c # cs) =
     (if c = 0x2F then rev cur # split_slash [] cs else split_slash (c # cur) cs)"

fun join_slash :: "jsstring list \<Rightarrow> jsstring" where
  "join_slash [] = []"
| "join_slash [x] = x"
| "join_slash (x # y # ys) = x @ 0x2F # join_slash (y # ys)"

text \<open>
  Normalisation of an absolute path, segment by segment: empty segments and \<open>.\<close> are
  dropped, \<open>..\<close> removes the segment before it and is dropped at the root. The first
  argument is the stack of kept segments, innermost first.
\<close>

fun normalize_segments :: "jsstring list \<Rightarrow> jsstring list \<Rightarrow> jsstring list" where
  "normalize_segments acc [] = rev acc"
| "normalize_segments acc (x # xs) =
     (if x = [] \<or> x = js ''.'' then normalize_segments acc xs
      else if x = js ''..'' then normalize_segments (tl acc) xs
      else normalize_segments (x # acc) xs)"

definition resolved_segments :: "jsstring \<Rightarrow> jsstring \<Rightarrow> jsstring list" where
  "resolved_segments cwd p =
     normalize_segments [] (split_slash [] (if isAbsolute p then p else cwd @ 0x2F # p))"

text \<open>
  \<open>path.resolve(p)\<close> in a process whose working directory is \<open>cwd\<close>. The working
  directory of a process is an absolute path, so the result always starts at the root.
\<close>

definition path_resolve :: "jsstring \<Rightarrow> jsstring \<Rightarrow> jsstring" where
  "path_resolve cwd p = 0x2F # join_slash (resolved_segments cwd p)"

fun strip_common :: "jsstring list \<Rightarrow> jsstring list \<Rightarrow> jsstring list \<times> jsstring list" where
  "strip_common (x # xs) (y # ys) = (if x = y then strip_common xs ys else (x # xs, y # ys))"
| "strip_common xs ys = (xs, ys)"

definition path_relative :: "jsstring \<Rightarrow> jsstring \<Rightarrow> jsstring \<Rightarrow> jsstring" where
  "path_relative cwd from to =
     (case strip_common (resolved_segments cwd from) (resolved_segments cwd to) of
        (fs, ts) \<Rightarrow> join_slash (map (\<lambda>_. js ''..'') fs @ ts))"

section \<open>The process: terminal, log, file system\<close>

text \<open>
  What a call can fail with: the user quitting a prompt, a file system error (by its
  code), an \<open>Error\<close> thrown by this code (by its message), and the failure of a
  collaborator outside it.
\<close>

datatype error =
    PromptAborted
  | FsError jsstring
  | Error jsstring
  | Rejected jsstring

datatype js_value = JBool bool | JString jsstring

fun truthy :: "js_value \<Rightarrow> bool" where
  "truthy (JBool b) = b"
| "truthy (JString s) = (s \<noteq> [])"

datatype prompt_type = P_select | P_text | P_password

text \<open>
  The \<open>format\<close> and \<open>validate\<close> hooks of a prompt are functions of this file; a prompt
  descriptor holds the hook's name and \<open>run_format\<close>, \<open>run_validate\<close> below run it.
\<close>

datatype formatter = F_produceAbsolutePath

datatype validator = V_validateNonEmptyInput | V_validateExistingFileAsync

record Choice =
  title :: jsstring
  choice_value :: js_value

record PromptQuestion =
  ptype :: prompt_type
  pname :: jsstring
  message :: jsstring
  initial :: "jsstring option"
  choices :: "Choice list"
  format :: "formatter option"
  validate :: "validator option"

datatype user_input = Pick nat | Typed jsstring

datatype log_entry = Warn jsstring | Info jsstring | NewLine

text \<open>\<open>fs.Stats\<close>, as far as this code reads it.\<close>

datatype Stats = Stats (isFile: bool)

text \<open>
  The state of the process and what surrounds it. The file system is a collaborator
  outside this code and nothing is assumed of it: \<open>fs_stat\<close> is what \<open>fs.stat\<close> answers for
  a path and \<open>fs_read\<close> what reading the bytes at a path gives, each of which may fail,
  and the one is not tied to the other (a file that \<open>fs.stat\<close> reports may still fail to
  be read). \<open>utf8_text\<close> is the text Node's \<open>Buffer\<close> decodes from bytes read as \<open>utf8\<close>.
\<close>

record world =
  script :: "user_input list"
  asked :: "PromptQuestion list"
  logged :: "log_entry list"
  expert_prompt_called :: bool
  fs_stat :: "jsstring \<Rightarrow> error + Stats"
  fs_read :: "jsstring \<Rightarrow> error + 8 word list"
  utf8_text :: "8 word list \<Rightarrow> jsstring"
  homedir :: jsstring
  cwd :: jsstring

datatype encoding = Base64 | Utf8

definition base64_alphabet :: jsstring where
  "base64_alphabet = js ''ABCDEFGHIJKLMNOPQRSTUVWXYZabcdefghijklmnopqrstuvwxyz0123456789+/''"

definition b64 :: "nat \<Rightarrow> 16 word" where
  "b64 n = base64_alphabet ! n"

text \<open>The base64 text of a list of bytes (given as numbers); \<open>=\<close> is 0x3D.\<close>

fun base64_encode :: "nat list \<Rightarrow> jsstring" where
  "base64_encode [] = []"
| "base64_encode [a] = [b64 (a div 4), b64 ((a mod 4) * 16), 0x3D, 0x3D]"
| "base64_encode [a, b] =
     [b64 (a div 4), b64 ((a mod 4) * 16 + b div 16), b64 ((b mod 16) * 4), 0x3D]"
| "base64_encode (a # b # c # rest) =
     [b64 (a div 4), b64 ((a mod 4) * 16 + b div 16), b64 ((b mod 16) * 4 + c div 64),
      b64 (c mod 64)] @ base64_encode rest"

text \<open>The bytes of a file as a string, under an encoding (\<open>buffer.toString(encoding)\<close>).\<close>

fun decode_as :: "world \<Rightarrow> encoding \<Rightarrow> 8 word list \<Rightarrow> jsstring" where
  "decode_as w Base64 bytes = base64_encode (map unat bytes)"
| "decode_as w Utf8 bytes = utf8_text w bytes"

text \<open>\<open>fs.readFile(path, encoding)\<close>: the bytes at the path, decoded; a failed read fails.\<close>

definition readFile :: "jsstring \<Rightarrow> encoding \<Rightarrow> world \<Rightarrow> error + jsstring" where
  "readFile p enc w =
     (case fs_read w p of
        Inl e \<Rightarrow> Inl e
      | Inr bytes \<Rightarrow> Inr (decode_as w enc bytes))"

section \<open>promptForCredentials.ts: hooks\<close>

definition produceAbsolutePath :: "world \<Rightarrow> jsstring \<Rightarrow> jsstring" where
  "produceAbsolutePath w filePath =
     (let untildified = untildify (homedir w) (js_trim filePath)
      in if \<not> isAbsolute untildified then path_resolve (cwd w) untildified else untildified)"

datatype validate_result = VBool bool | VMessage jsstring

definition validateNonEmptyInput :: "jsstring \<Rightarrow> bool" where
  "validateNonEmptyInput val = (val \<noteq> [])"

definition validateExistingFileAsync :: "world \<Rightarrow> jsstring \<Rightarrow> validate_result" where
  "validateExistingFileAsync w filePath =
     (case fs_stat w filePath of
        Inr stats \<Rightarrow>
          if isFile stats then VBool True else VMessage (js ''Input is not a file.'')
      | Inl e \<Rightarrow> VMessage (js ''File does not exist.''))"

fun run_format :: "world \<Rightarrow> formatter option \<Rightarrow> jsstring \<Rightarrow> jsstring" where
  "run_format w None s = s"
| "run_format w (Some F_produceAbsolutePath) s = produceAbsolutePath w s"

fun run_validate :: "world \<Rightarrow> validator option \<Rightarrow> jsstring \<Rightarrow> validate_result" where
  "run_validate w None s = VBool True"
| "run_validate w (Some V_validateNonEmptyInput) s = VBool (validateNonEmptyInput s)"
| "run_validate w (Some V_validateExistingFileAsync) s = validateExistingFileAsync w s"

text \<open>
  Modelled from the spec: the prompt primitive \<open>promptAsync\<close> of \<open>../../prompts\<close>,
  which is not part of this file. It asks one question and gives back the answer. A
  \<open>select\<close> prompt answers with the value of the choice the user picks. A \<open>text\<close> or
  \<open>password\<close> prompt takes what the user types (the default \<open>initial\<close> when nothing is
  typed), applies \<open>format\<close> to it and then \<open>validate\<close>; on any result other than
  \<open>true\<close> the same question is asked again, until the input is valid or the user quits.
  The user is the \<open>script\<close> of the inputs still to come: when it runs out, or the next
  input is not one the prompt can take, the user has quit. Every call is recorded in
  \<open>asked\<close>.
\<close>

fun read_valid :: "world \<Rightarrow> PromptQuestion \<Rightarrow> user_input list \<Rightarrow> jsstring option \<times> user_input list" where
  "read_valid w q [] = (None, [])"
| "read_valid w q (Pick i # rest) = (None, rest)"
| "read_valid w q (Typed raw # rest) =
     (let v = run_format w (format q)
                (if raw = [] then (case initial q of None \<Rightarrow> [] | Some d \<Rightarrow> d) else raw)
      in if run_validate w (validate q) v = VBool True then (Some v, rest)
         else read_valid w q rest)"

definition promptAsync :: "PromptQuestion \<Rightarrow> world \<Rightarrow> (error + js_value) \<times> world" where
  "promptAsync q w =
     (let w1 = w\<lparr>asked := asked w @ [q]\<rparr>
      in case ptype q of
           P_select \<Rightarrow>
             (case script w of
                Pick i # rest \<Rightarrow>
                  if i < length (choices q)
                  then (Inr (choice_value (choices q ! i)), w1\<lparr>script := rest\<rparr>)
                  else (Inl PromptAborted, w1\<lparr>script := rest\<rparr>)
              | _ \<Rightarrow> (Inl PromptAborted, w1\<lparr>script := tl (script w)\<rparr>))
         | _ \<Rightarrow>
             (case read_valid w q (script w) of
                (None, rest) \<Rightarrow> (Inl PromptAborted, w1\<lparr>script := rest\<rparr>)
              | (Some v, rest) \<Rightarrow> (Inr (JString v), w1\<lparr>script := rest\<rparr>)))"

section \<open>promptForCredentials.ts: the credential schema engine\<close>

datatype question_type = Q_file | Q_string | Q_password

record Question =
  field :: jsstring
  question :: jsstring
  qtype :: question_type
  base64Encode :: "bool option"

record ProvideMethodQuestion =
  pm_question :: "jsstring option"
  expoGenerated :: "jsstring option"
  userProvided :: "jsstring option"

text \<open>
  The answer bag is a plain object: the map of its own keys to their values (the order
  in which an object lists its keys is not modelled). \<open>assign obj key v\<close> is the
  statement \<open>obj[key] = v\<close> for a string \<open>v\<close>. It creates or overwrites the own key, except
  for the key \<open>__proto__\<close>: that name is the accessor a plain object inherits from
  \<open>Object.prototype\<close>, and its setter ignores a value that is neither an object nor
  \<open>null\<close>, so the assignment stores nothing.
\<close>

type_synonym answers = "jsstring \<Rightarrow> jsstring option"

definition assign :: "answers \<Rightarrow> jsstring \<Rightarrow> jsstring \<Rightarrow> answers" where
  "assign obj key v = (if key = js ''__proto__'' then obj else obj(key \<mapsto> v))"

record 't CredentialSchema =
  name :: jsstring
  questions :: "Question list"
  provideMethodQuestion :: "ProvideMethodQuestion option"
  transformResultAsync :: "(answers \<Rightarrow> error + 't) option"

text \<open>
  What \<open>getCredentialsFromUserAsync\<close> resolves to: the raw answer bag itself (the cast
  \<open>results as T\<close>), or what \<open>transformResultAsync\<close> made of it.
\<close>

datatype 't credentials = Bag answers | Transformed 't

definition EXPERT_PROMPT_MESSAGE :: jsstring where
  "EXPERT_PROMPT_MESSAGE =
     js (CHR 0x0A # ''In this mode, we won't be able to make sure that your credentials are valid.''
     @ CHR 0x0A # ''Please double check that you're uploading valid files for your app otherwise you may encounter strange errors!''
     @ CHR 0x0A # CHR 0x0A # ''When building for IOS make sure you've created your App ID on the Apple Developer Portal, that your App ID''
     @ CHR 0x0A # ''is in app.json as `bundleIdentifier`, and that the provisioning profile you''
     @ CHR 0x0A # ''upload matches that Team ID and App ID.''
     @ [CHR 0x0A])"

text \<open>
  \<open>EXPERT_PROMPT = once(() => log.warn(...))\<close>: lodash's \<open>once\<close> keeps a latch with the
  function; the first call sets it and runs the function, every later call does nothing.
\<close>

definition EXPERT_PROMPT :: "world \<Rightarrow> world" where
  "EXPERT_PROMPT w =
     (if expert_prompt_called w then w
      else w\<lparr>expert_prompt_called := True, logged := logged w @ [Warn EXPERT_PROMPT_MESSAGE]\<rparr>)"

definition provideMethodPrompt :: "'t CredentialSchema \<Rightarrow> PromptQuestion" where
  "provideMethodPrompt schema =
     \<lparr>ptype = P_select,
      pname = js ''answer'',
      message = (case Option.bind (provideMethodQuestion schema) pm_question of
                   Some m \<Rightarrow> m
                 | None \<Rightarrow> js ''Will you provide your own '' @ name schema @ js ''?''),
      initial = None,
      choices =
        [\<lparr>title = (case Option.bind (provideMethodQuestion schema) expoGenerated of
                     Some t \<Rightarrow> t | None \<Rightarrow> js ''Let EAS handle the process''),
          choice_value = JBool False\<rparr>,
         \<lparr>title = (case Option.bind (provideMethodQuestion schema) userProvided of
                     Some t \<Rightarrow> t | None \<Rightarrow> js ''I want to upload my own file''),
          choice_value = JBool True\<rparr>],
      format = None,
      validate = None\<rparr>"

definition willUserProvideCredentialsAsync ::
  "'t CredentialSchema \<Rightarrow> world \<Rightarrow> (error + js_value) \<times> world" where
  "willUserProvideCredentialsAsync schema w = promptAsync (provideMethodPrompt schema) w"

definition buildQuestionObject :: "Question \<Rightarrow> jsstring option \<Rightarrow> PromptQuestion" where
  "buildQuestionObject definition initialValue =
     (case qtype definition of
        Q_string \<Rightarrow>
          \<lparr>ptype = P_text, pname = js ''input'', message = question definition,
           initial = initialValue, choices = [], format = None,
           validate = Some V_validateNonEmptyInput\<rparr>
      | Q_file \<Rightarrow>
          \<lparr>ptype = P_text, pname = js ''input'', message = question definition,
           initial = None, choices = [], format = Some F_produceAbsolutePath,
           validate = Some V_validateExistingFileAsync\<rparr>
      | Q_password \<Rightarrow>
          \<lparr>ptype = P_password, pname = js ''input'', message = question definition,
           initial = None, choices = [], format = None,
           validate = Some V_validateNonEmptyInput\<rparr>)"

definition processAnswerAsync :: "Question \<Rightarrow> jsstring \<Rightarrow> world \<Rightarrow> error + jsstring" where
  "processAnswerAsync definition input w =
     (if qtype definition = Q_file
      then readFile input (if base64Encode definition = Some True then Base64 else Utf8) w
      else Inr input)"

text \<open>
  The answer of a \<open>text\<close> or \<open>password\<close> prompt is a string (\<open>promptAsync_text\<close> below);
  the branch for any other value is never taken.
\<close>

definition askQuestionAndProcessAnswerAsync ::
  "Question \<Rightarrow> jsstring option \<Rightarrow> world \<Rightarrow> (error + jsstring) \<times> world" where
  "askQuestionAndProcessAnswerAsync definition initialValue w =
     (let questionObject = buildQuestionObject definition initialValue
      in case promptAsync questionObject w of
           (Inl e, w') \<Rightarrow> (Inl e, w')
         | (Inr (JString input), w') \<Rightarrow> (processAnswerAsync definition input w', w')
         | (Inr (JBool b), w') \<Rightarrow> (Inl (Error (js ''input is not a string'')), w'))"

text \<open>The \<open>for\<close> loop of \<open>getCredentialsFromUserAsync\<close> over the questions still to ask.\<close>

fun askAll ::
  "Question list \<Rightarrow> (jsstring \<Rightarrow> jsstring option) \<Rightarrow> answers \<Rightarrow> world \<Rightarrow> (error + answers) \<times> world" where
  "askAll [] initialValues results w = (Inr results, w)"
| "askAll (q # qs) initialValues results w =
     (case askQuestionAndProcessAnswerAsync q (initialValues (field q)) w of
        (Inl e, w') \<Rightarrow> (Inl e, w')
      | (Inr a, w') \<Rightarrow> askAll qs initialValues (assign results (field q) a) w')"

definition getCredentialsFromUserAsync ::
  "'t CredentialSchema \<Rightarrow> (jsstring \<Rightarrow> jsstring option) \<Rightarrow> world \<Rightarrow> (error + 't credentials) \<times> world" where
  "getCredentialsFromUserAsync credentialsSchema initialValues w =
     (case askAll (questions credentialsSchema) initialValues Map.empty w of
        (Inl e, w') \<Rightarrow> (Inl e, w')
      | (Inr results, w') \<Rightarrow>
          (case transformResultAsync credentialsSchema of
             Some transform \<Rightarrow>
               (case transform results of
                  Inl e \<Rightarrow> (Inl e, w')
                | Inr t \<Rightarrow> (Inr (Transformed t), w'))
           | None \<Rightarrow> (Inr (Bag results), w')))"

text \<open>The result \<open>None\<close> is JavaScript's \<open>null\<close>.\<close>

definition askForUserProvidedAsync ::
  "'t CredentialSchema \<Rightarrow> (jsstring \<Rightarrow> jsstring option) \<Rightarrow> world \<Rightarrow> (error + 't credentials option) \<times> world" where
  "askForUserProvidedAsync schema initialValues w =
     (case willUserProvideCredentialsAsync schema w of
        (Inl e, w') \<Rightarrow> (Inl e, w')
      | (Inr answer, w') \<Rightarrow>
          if truthy answer
          then (case getCredentialsFromUserAsync schema initialValues (EXPERT_PROMPT w') of
                  (Inl e, w'') \<Rightarrow> (Inl e, w'')
                | (Inr c, w'') \<Rightarrow> (Inr (Some c), w''))
          else (Inr None, w'))"

section \<open>prepareJob.ts: the Android job assembler\<close>

text \<open>
  \<open>Workflow\<close> is the enumeration of \<open>@expo/eas-build-job\<close>. At run time a build profile
  can hold any value in its \<open>workflow\<close> field; \<open>OtherWorkflow\<close> stands for every value that
  is neither of the two.
\<close>

datatype Workflow = Generic | Managed | OtherWorkflow jsstring

datatype Platform = Android | iOS

record 'exp CommandContext =
  projectDir :: jsstring
  nonInteractive :: bool
  exp :: 'exp

record ('exp, 'profile) BuildContext =
  commandCtx :: "'exp CommandContext"
  buildProfile :: 'profile

record AndroidBuildProfile =
  workflow :: Workflow
  gradleCommand :: "jsstring option"
  artifactPath :: "jsstring option"

text \<open>\<open>AndroidCredentials\<close>, as \<open>prepareJobCommonAsync\<close> reads it.\<close>

record AndroidKeystore =
  keystore :: jsstring
  keystorePassword :: jsstring
  keyAlias :: jsstring
  keyPassword :: jsstring

record AndroidCredentials =
  credentials_keystore :: AndroidKeystore

record JobData =
  archiveUrl :: jsstring
  credentials :: "AndroidCredentials option"

text \<open>
  The job object. A key that an object may lack is an \<open>option\<close>; the fields of the job
  that share a name with a field of the credentials or of the build profile carry the
  prefix \<open>job_\<close>.
\<close>

record Keystore =
  dataBase64 :: jsstring
  job_keystorePassword :: jsstring
  job_keyAlias :: jsstring
  job_keyPassword :: jsstring

record BuildCredentials =
  job_keystore :: Keystore

record Secrets =
  secretEnvs :: "(jsstring \<times> jsstring) list option"
  buildCredentials :: "BuildCredentials option"

record CommonJobProperties =
  platform :: Platform
  projectUrl :: jsstring
  secrets :: Secrets

record PartialJob = CommonJobProperties +
  job_type :: Workflow
  job_gradleCommand :: "jsstring option"
  job_artifactPath :: "jsstring option"
  projectRootDirectory :: jsstring

text \<open>
  The collaborators of the assembler, which live outside this file: the secret source,
  the repository root locator, the job sanitizer and the working directory of the
  process. Each may fail; \<open>'job\<close> is the sanitizer's \<open>Job\<close>.
\<close>

record 'job job_env =
  readSecretEnvsAsync :: "jsstring \<Rightarrow> error + (jsstring \<times> jsstring) list option"
  gitRootDirectoryAsync :: "error + jsstring"
  sanitizeJob :: "PartialJob \<Rightarrow> error + 'job"
  process_cwd :: jsstring

definition prepareJobCommonAsync ::
  "'job job_env \<Rightarrow> ('exp, AndroidBuildProfile) BuildContext \<Rightarrow> JobData \<Rightarrow> error + CommonJobProperties" where
  "prepareJobCommonAsync env ctx jobData =
     (case readSecretEnvsAsync env (projectDir (commandCtx ctx)) of
        Inl e \<Rightarrow> Inl e
      | Inr envs \<Rightarrow>
          Inr \<lparr>platform = Android,
               projectUrl = archiveUrl jobData,
               secrets =
                 \<lparr>secretEnvs = envs,
                  buildCredentials =
                    (case credentials jobData of
                       None \<Rightarrow> None
                     | Some c \<Rightarrow>
                         Some \<lparr>job_keystore =
                                 \<lparr>dataBase64 = keystore (credentials_keystore c),
                                  job_keystorePassword = keystorePassword (credentials_keystore c),
                                  job_keyAlias = keyAlias (credentials_keystore c),
                                  job_keyPassword = keyPassword (credentials_keystore c)\<rparr>\<rparr>)\<rparr>\<rparr>)"

text \<open>\<open>path.relative(await gitRootDirectoryAsync(), process.cwd()) || '.'\<close>\<close>

definition projectRootDirectoryOf :: "'job job_env \<Rightarrow> error + jsstring" where
  "projectRootDirectoryOf env =
     (case gitRootDirectoryAsync env of
        Inl e \<Rightarrow> Inl e
      | Inr root \<Rightarrow>
          (let r = path_relative (process_cwd env) root (process_cwd env)
           in Inr (if r = [] then js ''.'' else r)))"

definition prepareGenericJobAsync ::
  "'job job_env \<Rightarrow> ('exp, AndroidBuildProfile) BuildContext \<Rightarrow> JobData \<Rightarrow> AndroidBuildProfile
     \<Rightarrow> error + PartialJob" where
  "prepareGenericJobAsync env ctx jobData profile =
     (case projectRootDirectoryOf env of
        Inl e \<Rightarrow> Inl e
      | Inr root \<Rightarrow>
          (case prepareJobCommonAsync env ctx jobData of
             Inl e \<Rightarrow> Inl e
           | Inr common \<Rightarrow>
               Inr (CommonJobProperties.extend common
                      (PartialJob.fields Generic (gradleCommand profile) (artifactPath profile) root))))"

definition prepareManagedJobAsync ::
  "'job job_env \<Rightarrow> ('exp, AndroidBuildProfile) BuildContext \<Rightarrow> JobData \<Rightarrow> AndroidBuildProfile
     \<Rightarrow> error + PartialJob" where
  "prepareManagedJobAsync env ctx jobData profile =
     (case projectRootDirectoryOf env of
        Inl e \<Rightarrow> Inl e
      | Inr root \<Rightarrow>
          (case prepareJobCommonAsync env ctx jobData of
             Inl e \<Rightarrow> Inl e
           | Inr common \<Rightarrow>
               Inr (CommonJobProperties.extend common (PartialJob.fields Managed None None root))))"

definition prepareJobAsync ::
  "'job job_env \<Rightarrow> ('exp, AndroidBuildProfile) BuildContext \<Rightarrow> JobData \<Rightarrow> error + 'job" where
  "prepareJobAsync env ctx jobData =
     (if workflow (buildProfile ctx) = Generic then
        (case prepareGenericJobAsync env ctx jobData (buildProfile ctx) of
           Inl e \<Rightarrow> Inl e
         | Inr partialJob \<Rightarrow> sanitizeJob env partialJob)
      else if workflow (buildProfile ctx) = Managed then
        (case prepareManagedJobAsync env ctx jobData (buildProfile ctx) of
           Inl e \<Rightarrow> Inl e
         | Inr partialJob \<Rightarrow> sanitizeJob env partialJob)
      else Inl (Error (js ''Unknown workflow. Shouldn't happen'')))"

section \<open>build.ts: the iOS scheme resolver and build driver\<close>

record IosBuildProfile =
  ios_workflow :: Workflow
  scheme :: "jsstring option"

text \<open>
  The collaborators of the iOS driver, outside this file: the build-context constructor,
  scheme discovery, the project configuration sync and the generic build starter, which
  is handed the build context and the \<open>iosNativeProjectScheme\<close> of the project
  configuration (\<open>None\<close> is \<open>undefined\<close>).
\<close>

record ('exp, 'cfg) ios_env =
  createBuildContext ::
    "'exp CommandContext \<Rightarrow> 'cfg \<Rightarrow> jsstring \<Rightarrow> ('exp, IosBuildProfile) BuildContext"
  getSchemesFromXcodeproj :: "jsstring \<Rightarrow> error + jsstring list"
  syncProjectConfigurationAsync :: "jsstring \<Rightarrow> 'exp \<Rightarrow> error + unit"
  startBuildForPlatformAsync ::
    "('exp, IosBuildProfile) BuildContext \<Rightarrow> jsstring option \<Rightarrow> world \<Rightarrow> (error + jsstring) \<times> world"

text \<open>
  lodash's \<open>sortBy\<close> with no iteratee sorts ascending and stably, comparing strings
  with \<open><\<close>: lexicographically on their code units, the order of \<open>jsstring\<close>.
\<close>

definition sortBy :: "jsstring list \<Rightarrow> jsstring list" where
  "sortBy xs = sort xs"

fun join_with :: "jsstring \<Rightarrow> jsstring list \<Rightarrow> jsstring" where
  "join_with sep [] = []"
| "join_with sep [x] = x"
| "join_with sep (x # y # ys) = x @ sep @ join_with sep (y # ys)"

text \<open>\<open>chalk.bold\<close> only styles its argument for the terminal.\<close>

definition chalk_bold :: "jsstring \<Rightarrow> jsstring" where
  "chalk_bold s = s"

text \<open>\<open>xs[0]\<close>: the first element, \<open>undefined\<close> (\<open>None\<close>) when there is none.\<close>

definition index0 :: "'a list \<Rightarrow> 'a option" where
  "index0 xs = (case xs of [] \<Rightarrow> None | x # _ \<Rightarrow> Some x)"

text \<open>A value that may be \<open>undefined\<close>, as a template literal prints it.\<close>

definition interpolate :: "jsstring option \<Rightarrow> jsstring" where
  "interpolate v = (case v of None \<Rightarrow> js ''undefined'' | Some s \<Rightarrow> s)"

definition schemePrompt :: "jsstring list \<Rightarrow> PromptQuestion" where
  "schemePrompt sortedSchemes =
     \<lparr>ptype = P_select,
      pname = js ''selectedScheme'',
      message = js ''Which scheme would you like to build now?'',
      initial = None,
      choices = map (\<lambda>scheme. \<lparr>title = scheme, choice_value = JString scheme\<rparr>) sortedSchemes,
      format = None,
      validate = None\<rparr>"

definition resolveSchemeAsync ::
  "('exp, 'cfg) ios_env \<Rightarrow> ('exp, IosBuildProfile) BuildContext \<Rightarrow> world
     \<Rightarrow> (error + jsstring option) \<times> world" where
  "resolveSchemeAsync env ctx w =
     (case getSchemesFromXcodeproj env (projectDir (commandCtx ctx)) of
        Inl e \<Rightarrow> (Inl e, w)
      | Inr schemes \<Rightarrow>
          if length schemes = 1 then (Inr (index0 schemes), w)
          else
            (let sortedSchemes = sortBy schemes;
                 w1 = w\<lparr>logged := logged w @
                        [NewLine,
                         Info (js ''We've found multiple schemes in your Xcode project: ''
                               @ chalk_bold (join_with (js '', '') sortedSchemes)),
                         Info (js ''You can specify the scheme you want to build at ''
                               @ chalk_bold (js ''builds.ios.PROFILE_NAME.scheme'') @ js '' in eas.json.'')]\<rparr>
             in if nonInteractive (commandCtx ctx) then
                  (let withoutTvOS = filter (\<lambda>i. \<not> str_includes i (js ''tvOS'')) sortedSchemes;
                       chosen = (if length withoutTvOS > 0 then index0 withoutTvOS
                                 else index0 sortedSchemes)
                   in (Inr chosen,
                       w1\<lparr>logged := logged w1 @
                            [Info (js ''You've run Expo CLI in non-interactive mode, choosing the ''
                                   @ chalk_bold (interpolate chosen) @ js '' scheme.''),
                             NewLine]\<rparr>))
                else
                  (case promptAsync (schemePrompt sortedSchemes) w1 of
                     (Inl e, w2) \<Rightarrow> (Inl e, w2)
                   | (Inr selectedScheme, w2) \<Rightarrow>
                       (Inr (case selectedScheme of JString s \<Rightarrow> Some s | JBool _ \<Rightarrow> None),
                        w2\<lparr>logged := logged w2 @ [NewLine]\<rparr>))))"

definition startIosBuildAsync ::
  "('exp, 'cfg) ios_env \<Rightarrow> 'exp CommandContext \<Rightarrow> 'cfg \<Rightarrow> jsstring \<Rightarrow> world
     \<Rightarrow> (error + jsstring) \<times> world" where
  "startIosBuildAsync env cmdCtx easConfig projectId w =
     (let buildCtx = createBuildContext env cmdCtx easConfig projectId
      in case (if ios_workflow (buildProfile buildCtx) = Generic
               then (case scheme (buildProfile buildCtx) of
                       Some s \<Rightarrow> (Inr (Some s), w)
                     | None \<Rightarrow> resolveSchemeAsync env buildCtx w)
               else (Inr None, w)) of
           (Inl e, w1) \<Rightarrow> (Inl e, w1)
         | (Inr iosNativeProjectScheme, w1) \<Rightarrow>
             (case (if ios_workflow (buildProfile buildCtx) = Generic
                    then syncProjectConfigurationAsync env (projectDir cmdCtx) (exp cmdCtx)
                    else Inr ()) of
                Inl e \<Rightarrow> (Inl e, w1)
              | Inr _ \<Rightarrow> startBuildForPlatformAsync env buildCtx iosNativeProjectScheme w1))"

section \<open>Runs of the process and sample data\<close>

text \<open>
  The number of times the manual-credentials warning stands in the log, whether a call of
  \<open>askForUserProvidedAsync\<close> takes the user-accepts path, and a run of one process
  through a list of calls, one after the other, which gives back for each call whether
  the user accepted and the world at the end.
\<close>

definition warnings :: "world \<Rightarrow> nat" where
  "warnings w = count_list (logged w) (Warn EXPERT_PROMPT_MESSAGE)"

definition accepts :: "'t CredentialSchema \<Rightarrow> world \<Rightarrow> bool" where
  "accepts schema w =
     (case fst (willUserProvideCredentialsAsync schema w) of
        Inl e \<Rightarrow> False
      | Inr answer \<Rightarrow> truthy answer)"

fun process_run ::
  "('t CredentialSchema \<times> (jsstring \<Rightarrow> jsstring option)) list \<Rightarrow> world \<Rightarrow> bool list \<times> world" where
  "process_run [] w = ([], w)"
| "process_run (c # cs) w =
     (case process_run cs (snd (askForUserProvidedAsync (fst c) (snd c) w)) of
        (bs, w') \<Rightarrow> (accepts (fst c) w # bs, w'))"

text \<open>
  The answers of a schema's questions, resolved one per question in schema order: the
  first failure ends the run.
\<close>

fun resolveAnswers ::
  "Question list \<Rightarrow> (jsstring \<Rightarrow> jsstring option) \<Rightarrow> world \<Rightarrow> (error + jsstring list) \<times> world" where
  "resolveAnswers [] initialValues w = (Inr [], w)"
| "resolveAnswers (q # qs) initialValues w =
     (case askQuestionAndProcessAnswerAsync q (initialValues (field q)) w of
        (Inl e, w') \<Rightarrow> (Inl e, w')
      | (Inr a, w') \<Rightarrow>
          (case resolveAnswers qs initialValues w' of
             (Inl e, w'') \<Rightarrow> (Inl e, w'')
           | (Inr as, w'') \<Rightarrow> (Inr (a # as), w'')))"

definition keystore_question :: Question where
  "keystore_question =
     \<lparr>field = js ''keystore'', question = js ''Path to the Keystore file.'', qtype = Q_file,
      base64Encode = Some True\<rparr>"

definition alias_question :: Question where
  "alias_question =
     \<lparr>field = js ''keyAlias'', question = js ''Key alias'', qtype = Q_string, base64Encode = None\<rparr>"

definition password_question :: Question where
  "password_question =
     \<lparr>field = js ''keyPassword'', question = js ''Key password'', qtype = Q_password,
      base64Encode = None\<rparr>"

definition sample_schema :: "unit CredentialSchema" where
  "sample_schema =
     \<lparr>name = js ''Android Keystore'',
      questions = [keystore_question, alias_question],
      provideMethodQuestion = None,
      transformResultAsync = None\<rparr>"

definition proto_question :: Question where
  "proto_question =
     \<lparr>field = js ''__proto__'', question = js ''Value'', qtype = Q_string, base64Encode = None\<rparr>"

definition proto_schema :: "unit CredentialSchema" where
  "proto_schema =
     \<lparr>name = js ''Sample'',
      questions = [proto_question],
      provideMethodQuestion = None,
      transformResultAsync = None\<rparr>"

text \<open>
  A sample process. Its file system has the directory \<open>/home/u\<close>, the file
  \<open>/home/u/app.jks\<close> with the three bytes of \<open>Man\<close>, and the file \<open>/home/u/locked.jks\<close>,
  which \<open>fs.stat\<close> reports and which cannot be read. Its decoder of text is right for
  ASCII bytes, which decode to the same numbers as code units; the sample reads no
  other bytes as text.
\<close>

definition sample_world :: "user_input list \<Rightarrow> world" where
  "sample_world inputs =
     \<lparr>script = inputs, asked = [], logged = [], expert_prompt_called = False,
      fs_stat =
        (\<lambda>p. if p = js ''/home/u/app.jks'' \<or> p = js ''/home/u/locked.jks'' then Inr (Stats True)
             else if p = js ''/home/u'' then Inr (Stats False)
             else Inl (FsError (js ''ENOENT''))),
      fs_read =
        (\<lambda>p. if p = js ''/home/u/app.jks'' then Inr [0x4D, 0x61, 0x6E]
             else if p = js ''/home/u/locked.jks'' then Inl (FsError (js ''EACCES''))
             else if p = js ''/home/u'' then Inl (FsError (js ''EISDIR''))
             else Inl (FsError (js ''ENOENT''))),
      utf8_text = map (\<lambda>b. of_nat (unat b)),
      homedir = js ''/home/u'', cwd = js ''/work''\<rparr>"

definition sample_calls :: "(unit CredentialSchema \<times> (jsstring \<Rightarrow> jsstring option)) list" where
  "sample_calls = [(sample_schema, Map.empty), (sample_schema, Map.empty), (sample_schema, Map.empty)]"

definition sample_script :: "user_input list" where
  "sample_script =
     [Pick 0,
      Pick 1, Typed (js ''~/app.jks''), Typed (js ''release''),
      Pick 1, Typed (js ''/missing''), Typed (js ''/home/u/app.jks ''), Typed [], Typed (js ''debug'')]"

definition sample_job_env :: "PartialJob job_env" where
  "sample_job_env =
     \<lparr>readSecretEnvsAsync = (\<lambda>dir. Inr None),
      gitRootDirectoryAsync = Inr (js ''/repo''),
      sanitizeJob = Inr,
      process_cwd = js ''/repo''\<rparr>"

definition sample_android_ctx :: "Workflow \<Rightarrow> (unit, AndroidBuildProfile) BuildContext" where
  "sample_android_ctx flow =
     \<lparr>commandCtx = \<lparr>projectDir = js ''/repo'', nonInteractive = False, exp = ()\<rparr>,
      buildProfile =
        \<lparr>workflow = flow, gradleCommand = Some (js ''assembleRelease''),
         artifactPath = Some (js ''app/build/outputs/apk/release/app-release.apk'')\<rparr>\<rparr>"

definition sample_credentials :: AndroidCredentials where
  "sample_credentials =
     \<lparr>credentials_keystore =
        \<lparr>keystore = js ''BASE64'', keystorePassword = js ''p1'', keyAlias = js ''a'', keyPassword = js ''p2''\<rparr>\<rparr>"

definition sample_job_data :: "AndroidCredentials option \<Rightarrow> JobData" where
  "sample_job_data c = \<lparr>archiveUrl = js ''https://x/archive.tar.gz'', credentials = c\<rparr>"

definition sample_command_ctx :: "bool \<Rightarrow> unit CommandContext" where
  "sample_command_ctx b = \<lparr>projectDir = js ''/repo'', nonInteractive = b, exp = ()\<rparr>"

definition sample_ios_ctx :: "bool \<Rightarrow> (unit, IosBuildProfile) BuildContext" where
  "sample_ios_ctx b =
     \<lparr>commandCtx = sample_command_ctx b,
      buildProfile = \<lparr>ios_workflow = Generic, scheme = None\<rparr>\<rparr>"

definition sample_ios_env :: "jsstring list \<Rightarrow> (unit, unit) ios_env" where
  "sample_ios_env schemes =
     \<lparr>createBuildContext =
        (\<lambda>cmd cfg pid. \<lparr>commandCtx = cmd, buildProfile = \<lparr>ios_workflow = Generic, scheme = None\<rparr>\<rparr>),
      getSchemesFromXcodeproj = (\<lambda>dir. Inr schemes),
      syncProjectConfigurationAsync = (\<lambda>dir e. Inr ()),
      startBuildForPlatformAsync =
        (\<lambda>ctx s w. (Inr ((js ''build of scheme '') @ interpolate s), w))\<rparr>"

section \<open>The prompt primitive leaves the log, the latch and the file system alone\<close>

lemma promptAsync_asked: "asked (snd (promptAsync q w)) = asked w @ [q]"
  by (simp add: promptAsync_def Let_def
      split: prompt_type.splits list.splits user_input.splits prod.splits option.splits)

lemma promptAsync_logged: "logged (snd (promptAsync q w)) = logged w"
  by (simp add: promptAsync_def Let_def
      split: prompt_type.splits list.splits user_input.splits prod.splits option.splits)

lemma promptAsync_latch: "expert_prompt_called (snd (promptAsync q w)) = expert_prompt_called w"
  by (simp add: promptAsync_def Let_def
      split: prompt_type.splits list.splits user_input.splits prod.splits option.splits)

lemma promptAsync_env:
  "fs_stat (snd (promptAsync q w)) = fs_stat w \<and> fs_read (snd (promptAsync q w)) = fs_read w
   \<and> utf8_text (snd (promptAsync q w)) = utf8_text w
   \<and> cwd (snd (promptAsync q w)) = cwd w \<and> homedir (snd (promptAsync q w)) = homedir w"
  by (simp add: promptAsync_def Let_def
      split: prompt_type.splits list.splits user_input.splits prod.splits option.splits)

lemma askQuestion_world:
  "snd (askQuestionAndProcessAnswerAsync q iv w) = snd (promptAsync (buildQuestionObject q iv) w)"
  by (simp add: askQuestionAndProcessAnswerAsync_def Let_def
      split: prod.splits sum.splits js_value.splits)

section \<open>Declining the opt-in question\<close>

text \<open>
  C1. For every schema and every initial-values mapping, when the answer to the opt-in
  question is \<open>false\<close>, \<open>askForUserProvidedAsync\<close> returns \<open>null\<close> in the world the opt-in
  prompt left: that prompt is the only question asked, nothing is logged and the
  warning latch is untouched.
\<close>

theorem askForUserProvidedAsync_declined:
  assumes "willUserProvideCredentialsAsync S w = (Inr (JBool False), w')"
  shows "askForUserProvidedAsync S I w = (Inr None, w')
         \<and> asked w' = asked w @ [provideMethodPrompt S]
         \<and> logged w' = logged w
         \<and> expert_prompt_called w' = expert_prompt_called w"
proof -
  have w': "w' = snd (promptAsync (provideMethodPrompt S) w)"
    using assms by (simp add: willUserProvideCredentialsAsync_def)
  have "askForUserProvidedAsync S I w = (Inr None, w')"
    using assms by (simp add: askForUserProvidedAsync_def)
  then show ?thesis
    by (simp add: w' promptAsync_asked promptAsync_logged promptAsync_latch)
qed

theorem askForUserProvidedAsync_declined_witness:
  "willUserProvideCredentialsAsync sample_schema (sample_world [Pick 0, Typed (js ''x'')])
     = (Inr (JBool False), (sample_world [Typed (js ''x'')])\<lparr>asked := [provideMethodPrompt sample_schema]\<rparr>)
   \<and> askForUserProvidedAsync sample_schema Map.empty (sample_world [Pick 0, Typed (js ''x'')])
     = (Inr None, (sample_world [Typed (js ''x'')])\<lparr>asked := [provideMethodPrompt sample_schema]\<rparr>)"
proof -
  have h: "willUserProvideCredentialsAsync sample_schema (sample_world [Pick 0, Typed (js ''x'')])
     = (Inr (JBool False), (sample_world [Typed (js ''x'')])\<lparr>asked := [provideMethodPrompt sample_schema]\<rparr>)"
    by (simp add: willUserProvideCredentialsAsync_def promptAsync_def provideMethodPrompt_def
        sample_world_def Let_def)
  show ?thesis using h askForUserProvidedAsync_declined [OF h, of Map.empty] by simp
qed

section \<open>The manual-credentials warning\<close>

lemma askAll_logged:
  "logged (snd (askAll qs I acc w)) = logged w
   \<and> expert_prompt_called (snd (askAll qs I acc w)) = expert_prompt_called w"
proof (induction qs arbitrary: acc w)
  case Nil
  show ?case by simp
next
  case (Cons q qs)
  have step: "snd (askQuestionAndProcessAnswerAsync q (I (field q)) w)
              = snd (promptAsync (buildQuestionObject q (I (field q))) w)"
    by (rule askQuestion_world)
  show ?case
  proof (cases "askQuestionAndProcessAnswerAsync q (I (field q)) w")
    case (Pair r w1)
    with step have w1: "w1 = snd (promptAsync (buildQuestionObject q (I (field q))) w)" by simp
    show ?thesis
    proof (cases r)
      case (Inl e)
      with Pair w1 show ?thesis by (simp add: promptAsync_logged promptAsync_latch)
    next
      case (Inr a)
      with Pair w1 Cons.IH [of "assign acc (field q) a" w1] show ?thesis
        by (simp add: promptAsync_logged promptAsync_latch)
    qed
  qed
qed

lemma getCredentials_logged:
  "logged (snd (getCredentialsFromUserAsync S I w)) = logged w
   \<and> expert_prompt_called (snd (getCredentialsFromUserAsync S I w)) = expert_prompt_called w"
proof -
  have "snd (getCredentialsFromUserAsync S I w) = snd (askAll (questions S) I Map.empty w)"
    by (simp add: getCredentialsFromUserAsync_def split: prod.splits sum.splits option.splits)
  then show ?thesis by (simp add: askAll_logged)
qed

text \<open>
  One call: the latch is set afterwards exactly when it was set before or the user
  accepted, and the warning is logged once more exactly when the user accepted and the
  latch was not yet set.
\<close>

lemma askForUserProvided_step:
  "expert_prompt_called (snd (askForUserProvidedAsync S I w)) = (expert_prompt_called w \<or> accepts S w)
   \<and> warnings (snd (askForUserProvidedAsync S I w))
       = warnings w + (if accepts S w \<and> \<not> expert_prompt_called w then 1 else 0)"
proof (cases "willUserProvideCredentialsAsync S w")
  case (Pair r w1)
  then have w1: "w1 = snd (promptAsync (provideMethodPrompt S) w)"
    by (simp add: willUserProvideCredentialsAsync_def)
  have l1: "logged w1 = logged w" and c1: "expert_prompt_called w1 = expert_prompt_called w"
    by (simp_all add: w1 promptAsync_logged promptAsync_latch)
  show ?thesis
  proof (cases r)
    case (Inl e)
    with Pair l1 c1 show ?thesis
      by (simp add: askForUserProvidedAsync_def accepts_def warnings_def)
  next
    case (Inr a)
    show ?thesis
    proof (cases "truthy a")
      case False
      with Pair Inr l1 c1 show ?thesis
        by (simp add: askForUserProvidedAsync_def accepts_def warnings_def)
    next
      case True
      have "snd (askForUserProvidedAsync S I w)
            = snd (getCredentialsFromUserAsync S I (EXPERT_PROMPT w1))"
        using Pair Inr True
        by (simp add: askForUserProvidedAsync_def split: prod.splits sum.splits)
      moreover have "accepts S w" using Pair Inr True by (simp add: accepts_def)
      ultimately show ?thesis using l1 c1
        by (simp add: getCredentials_logged EXPERT_PROMPT_def warnings_def)
    qed
  qed
qed

lemma process_run_take:
  "fst (process_run (take n cs) w) = take n (fst (process_run cs w))"
proof (induction cs arbitrary: n w)
  case Nil
  show ?case by simp
next
  case (Cons c cs)
  show ?case
  proof (cases n)
    case 0
    then show ?thesis by simp
  next
    case (Suc m)
    with Cons.IH [of m "snd (askForUserProvidedAsync (fst c) (snd c) w)"] show ?thesis
      by (simp add: case_prod_beta)
  qed
qed

lemma process_run_inv:
  "warnings w = (if expert_prompt_called w then 1 else 0) \<Longrightarrow>
   warnings (snd (process_run cs w))
     = (if expert_prompt_called w \<or> True \<in> set (fst (process_run cs w)) then 1 else 0)"
proof (induction cs arbitrary: w)
  case Nil
  then show ?case by simp
next
  case (Cons c cs)
  let ?w1 = "snd (askForUserProvidedAsync (fst c) (snd c) w)"
  have inv: "warnings ?w1 = (if expert_prompt_called ?w1 then 1 else 0)"
    using Cons.prems askForUserProvided_step [of "fst c" "snd c" w] by auto
  have latch: "expert_prompt_called ?w1 = (expert_prompt_called w \<or> accepts (fst c) w)"
    using askForUserProvided_step [of "fst c" "snd c" w] by simp
  show ?case using Cons.IH [OF inv] latch
    by (simp add: case_prod_beta)
qed

text \<open>
  C2. In a process that starts with the latch unset and no warning in its log, after
  the first \<open>n\<close> calls of any sequence of calls of \<open>askForUserProvidedAsync\<close> the warning
  stands in the log once when one of those \<open>n\<close> calls took the user-accepts path and not
  at all otherwise: it is printed by the first accepting call and never again.
\<close>

theorem expert_prompt_once:
  assumes "\<not> expert_prompt_called w" and "warnings w = 0"
  shows "warnings (snd (process_run (take n calls) w))
           = (if True \<in> set (take n (fst (process_run calls w))) then 1 else 0)"
proof -
  have "warnings w = (if expert_prompt_called w then 1 else 0)" using assms by simp
  from process_run_inv [OF this, of "take n calls"] assms(1)
  have "warnings (snd (process_run (take n calls) w))
          = (if True \<in> set (fst (process_run (take n calls) w)) then 1 else 0)" by simp
  moreover have "fst (process_run (take n calls) w) = take n (fst (process_run calls w))"
    by (rule process_run_take)
  ultimately show ?thesis by simp
qed

theorem expert_prompt_once_witness:
  "\<not> expert_prompt_called (sample_world sample_script)
   \<and> warnings (sample_world sample_script) = 0
   \<and> fst (process_run sample_calls (sample_world sample_script)) = [False, True, True]
   \<and> warnings (snd (process_run (take 1 sample_calls) (sample_world sample_script))) = 0
   \<and> warnings (snd (process_run (take 2 sample_calls) (sample_world sample_script))) = 1
   \<and> warnings (snd (process_run (take 3 sample_calls) (sample_world sample_script))) = 1"
proof -
  have h1: "\<not> expert_prompt_called (sample_world sample_script)"
    by (simp add: sample_world_def)
  have h2: "warnings (sample_world sample_script) = 0"
    by (simp add: sample_world_def warnings_def)
  have h3: "fst (process_run sample_calls (sample_world sample_script)) = [False, True, True]"
    by code_simp
  show ?thesis
    using h1 h2 h3
      expert_prompt_once [OF h1 h2, of 1 sample_calls]
      expert_prompt_once [OF h1 h2, of 2 sample_calls]
      expert_prompt_once [OF h1 h2, of 3 sample_calls]
    by simp
qed

section \<open>The bundle of answers\<close>

lemma resolveAnswers_length:
  "resolveAnswers qs I w = (Inr as, w') \<Longrightarrow> length as = length qs"
proof (induction qs arbitrary: w as)
  case Nil
  then show ?case by simp
next
  case (Cons q qs)
  then show ?case
    by (auto split: prod.splits sum.splits)
qed

lemma askAll_resolveAnswers:
  "askAll qs I acc w =
     (case resolveAnswers qs I w of
        (Inl e, w') \<Rightarrow> (Inl e, w')
      | (Inr as, w') \<Rightarrow>
          (Inr (fold (\<lambda>p obj. assign obj (fst p) (snd p)) (zip (map field qs) as) acc), w'))"
proof (induction qs arbitrary: acc w)
  case Nil
  show ?case by simp
next
  case (Cons q qs)
  show ?case
    by (simp add: Cons.IH split: prod.splits sum.splits)
qed

lemma fold_assign:
  "fold (\<lambda>p obj. assign obj (fst p) (snd p)) kvs acc
     = acc ++ map_of (rev (filter (\<lambda>p. fst p \<noteq> js ''__proto__'') kvs))"
proof (induction kvs arbitrary: acc)
  case Nil
  show ?case by simp
next
  case (Cons kv kvs)
  let ?kept = "filter (\<lambda>p. fst p \<noteq> js ''__proto__'') kvs"
  have step: "fold (\<lambda>p obj. assign obj (fst p) (snd p)) (kv # kvs) acc
                = assign acc (fst kv) (snd kv) ++ map_of (rev ?kept)"
    by (simp only: fold_Cons comp_apply Cons.IH)
  show ?case
  proof (cases "fst kv = js ''__proto__''")
    case True
    then have 1: "assign acc (fst kv) (snd kv) = acc" by (simp only: assign_def simp_thms if_True)
    have 2: "filter (\<lambda>p. fst p \<noteq> js ''__proto__'') (kv # kvs) = ?kept"
      using True by (simp only: filter.simps simp_thms if_False)
    show ?thesis by (simp only: step 1 2)
  next
    case False
    then have 1: "assign acc (fst kv) (snd kv) = acc(fst kv \<mapsto> snd kv)"
      by (simp only: assign_def simp_thms if_False)
    have 2: "filter (\<lambda>p. fst p \<noteq> js ''__proto__'') (kv # kvs) = kv # ?kept"
      using False by (simp only: filter.simps simp_thms if_True)
    have 3: "acc(fst kv \<mapsto> snd kv) ++ map_of (rev ?kept) = acc ++ map_of (rev ?kept @ [kv])"
      by (cases kv) (simp add: fun_eq_iff map_add_def split: option.splits)
    have 4: "rev (kv # ?kept) = rev ?kept @ [kv]" by simp
    show ?thesis by (simp only: step 1 2 3 4)
  qed
qed

lemma image_fst_filter: "fst ` {x \<in> Z. fst x \<noteq> k} = fst ` Z - {k}"
  by (auto simp: image_iff)

text \<open>
  What \<open>getCredentialsFromUserAsync\<close> returns: the answers are resolved one per question
  in schema order, and the bag binds each field name other than \<open>__proto__\<close> to the
  answer of the last question of that name; \<open>__proto__\<close> is never a key of the bag.
\<close>

lemma getCredentialsFromUserAsync_bundle:
  assumes "getCredentialsFromUserAsync S I w = (Inr r, w')"
  shows "\<exists>as bag.
           resolveAnswers (questions S) I w = (Inr as, w')
           \<and> length as = length (questions S)
           \<and> bag = map_of (rev (filter (\<lambda>p. fst p \<noteq> js ''__proto__'')
                                  (zip (map field (questions S)) as)))
           \<and> dom bag = field ` set (questions S) - {js ''__proto__''}
           \<and> (case transformResultAsync S of
                 None \<Rightarrow> r = Bag bag
               | Some transform \<Rightarrow> (\<exists>t. transform bag = Inr t \<and> r = Transformed t))"
proof -
  let ?fields = "map field (questions S)"
  let ?bag = "\<lambda>as. map_of (rev (filter (\<lambda>p. fst p \<noteq> js ''__proto__'') (zip ?fields as)))"
  from assms obtain as where
    res: "resolveAnswers (questions S) I w = (Inr as, w')" and
    r: "(case transformResultAsync S of
           None \<Rightarrow> r = Bag (?bag as)
         | Some transform \<Rightarrow> (\<exists>t. transform (?bag as) = Inr t \<and> r = Transformed t))"
    by (auto simp: getCredentialsFromUserAsync_def askAll_resolveAnswers fold_assign
        split: prod.splits sum.splits option.splits)
  have len: "length as = length (questions S)" using res by (rule resolveAnswers_length)
  have "fst ` set (zip ?fields as) = set ?fields"
    using len by (metis length_map list.set_map map_fst_zip)
  then have keys: "dom (?bag as) = field ` set (questions S) - {js ''__proto__''}"
    by (simp add: dom_map_of_conv_image_fst image_fst_filter)
  from res len keys r show ?thesis by blast
qed

text \<open>
  C3 holds of every schema none of whose questions has the field name \<open>__proto__\<close>, and
  fails on the code for a schema that has one: the answer of that question is asked for
  and then stored nowhere, so the bundle returned has no key for the field. Here the
  schema's one question has the field \<open>__proto__\<close>, the user answers \<open>v\<close>, and the bundle
  returned is the empty object.
\<close>

theorem getCredentialsFromUserAsync_proto_dropped:
  "fst (getCredentialsFromUserAsync proto_schema Map.empty (sample_world [Typed (js ''v'')]))
     = Inr (Bag Map.empty)
   \<and> fst (resolveAnswers (questions proto_schema) Map.empty (sample_world [Typed (js ''v'')]))
       = Inr [js ''v'']
   \<and> field ` set (questions proto_schema) = {js ''__proto__''}
   \<and> dom (Map.empty :: answers) \<noteq> field ` set (questions proto_schema)"
proof -
  have v: "js ''v'' \<noteq> []" by (simp add: js_def)
  have a: "askQuestionAndProcessAnswerAsync proto_question None (sample_world [Typed (js ''v'')])
             = (Inr (js ''v''), (sample_world [])\<lparr>asked := [buildQuestionObject proto_question None]\<rparr>)"
    using v
    by (simp add: askQuestionAndProcessAnswerAsync_def buildQuestionObject_def promptAsync_def
        processAnswerAsync_def validateNonEmptyInput_def proto_question_def sample_world_def Let_def)
  have f: "field proto_question = js ''__proto__''" by (simp add: proto_question_def)
  have 1: "fst (getCredentialsFromUserAsync proto_schema Map.empty (sample_world [Typed (js ''v'')]))
     = Inr (Bag Map.empty)"
    using a f by (simp add: getCredentialsFromUserAsync_def proto_schema_def assign_def)
  have 2: "fst (resolveAnswers (questions proto_schema) Map.empty (sample_world [Typed (js ''v'')]))
       = Inr [js ''v'']"
    using a by (simp add: proto_schema_def)
  have 3: "field ` set (questions proto_schema) = {js ''__proto__''}"
    using f by (simp add: proto_schema_def)
  from 1 2 3 show ?thesis by simp
qed

section \<open>What is stored for an answer\<close>

lemma read_valid_Some:
  "read_valid w q inputs = (Some v, rest) \<Longrightarrow> run_validate w (validate q) v = VBool True"
proof (induction w q inputs rule: read_valid.induct)
  case (1 w q)
  then show ?case by simp
next
  case (2 w q i rest')
  then show ?case by simp
next
  case (3 w q raw rest')
  then show ?case by (auto simp: Let_def split: if_splits)
qed

lemma promptAsync_text:
  "ptype q \<noteq> P_select \<Longrightarrow> promptAsync q w = (Inr a, w') \<Longrightarrow>
   \<exists>v. a = JString v \<and> run_validate w (validate q) v = VBool True"
  by (auto simp: promptAsync_def Let_def read_valid_Some
      split: prompt_type.splits prod.splits option.splits)

text \<open>
  C4. Once the prompt of a question has accepted an input: for a question of type
  \<open>file\<close> the accepted input is a path that \<open>fs.stat\<close> reported as a regular file, and
  what is stored is what reading that file gives, its bytes as base64 when
  \<open>base64Encode\<close> is true and as text otherwise (the answer is made from the bytes of the
  file, not from the path), while a read that fails gives the read's error and stores
  nothing; for the types \<open>string\<close> and \<open>password\<close> the stored answer is the prompt's
  input, unchanged.
\<close>

theorem stored_answer:
  assumes "promptAsync (buildQuestionObject q iv) w = (Inr (JString input), w')"
  shows "(qtype q = Q_file \<longrightarrow>
            (\<exists>stats. fs_stat w input = Inr stats \<and> isFile stats)
            \<and> askQuestionAndProcessAnswerAsync q iv w
                = (case fs_read w' input of
                     Inl e \<Rightarrow> (Inl e, w')
                   | Inr bytes \<Rightarrow>
                       (Inr (decode_as w' (if base64Encode q = Some True then Base64 else Utf8)
                               bytes), w')))
         \<and> (qtype q \<noteq> Q_file \<longrightarrow> askQuestionAndProcessAnswerAsync q iv w = (Inr input, w'))"
proof (intro conjI impI)
  assume isfile: "qtype q = Q_file"
  then have "ptype (buildQuestionObject q iv) \<noteq> P_select"
    and v: "validate (buildQuestionObject q iv) = Some V_validateExistingFileAsync"
    by (simp_all add: buildQuestionObject_def)
  from promptAsync_text [OF this(1) assms] v
  have "validateExistingFileAsync w input = VBool True" by simp
  then show "\<exists>stats. fs_stat w input = Inr stats \<and> isFile stats"
    by (auto simp: validateExistingFileAsync_def split: sum.splits if_splits)
next
  assume isfile: "qtype q = Q_file"
  then show "askQuestionAndProcessAnswerAsync q iv w
                = (case fs_read w' input of
                     Inl e \<Rightarrow> (Inl e, w')
                   | Inr bytes \<Rightarrow>
                       (Inr (decode_as w' (if base64Encode q = Some True then Base64 else Utf8)
                               bytes), w'))"
    using assms
    by (simp add: askQuestionAndProcessAnswerAsync_def processAnswerAsync_def readFile_def
        split: sum.splits)
next
  assume "qtype q \<noteq> Q_file"
  then show "askQuestionAndProcessAnswerAsync q iv w = (Inr input, w')"
    using assms by (simp add: askQuestionAndProcessAnswerAsync_def processAnswerAsync_def)
qed

theorem stored_answer_witness:
  "promptAsync (buildQuestionObject keystore_question None) (sample_world [Typed (js ''~/app.jks'')])
     = (Inr (JString (js ''/home/u/app.jks'')),
        snd (promptAsync (buildQuestionObject keystore_question None)
               (sample_world [Typed (js ''~/app.jks'')])))
   \<and> (\<exists>stats. fs_stat (sample_world [Typed (js ''~/app.jks'')]) (js ''/home/u/app.jks'') = Inr stats
         \<and> isFile stats)
   \<and> fst (askQuestionAndProcessAnswerAsync keystore_question None
            (sample_world [Typed (js ''~/app.jks'')]))
       = Inr (js ''TWFu'')
   \<and> promptAsync (buildQuestionObject keystore_question None)
        (sample_world [Typed (js ''/home/u/locked.jks'')])
       = (Inr (JString (js ''/home/u/locked.jks'')),
          snd (promptAsync (buildQuestionObject keystore_question None)
                 (sample_world [Typed (js ''/home/u/locked.jks'')])))
   \<and> fst (askQuestionAndProcessAnswerAsync keystore_question None
            (sample_world [Typed (js ''/home/u/locked.jks'')]))
       = Inl (FsError (js ''EACCES''))
   \<and> promptAsync (buildQuestionObject password_question None) (sample_world [Typed (js ''s3cret'')])
       = (Inr (JString (js ''s3cret'')),
          snd (promptAsync (buildQuestionObject password_question None)
                 (sample_world [Typed (js ''s3cret'')])))
   \<and> askQuestionAndProcessAnswerAsync password_question None (sample_world [Typed (js ''s3cret'')])
       = (Inr (js ''s3cret''),
          snd (promptAsync (buildQuestionObject password_question None)
                 (sample_world [Typed (js ''s3cret'')])))"
proof -
  let ?w = "sample_world [Typed (js ''~/app.jks'')]"
  let ?l = "sample_world [Typed (js ''/home/u/locked.jks'')]"
  let ?v = "sample_world [Typed (js ''s3cret'')]"
  have "fst (promptAsync (buildQuestionObject keystore_question None) ?w)
          = Inr (JString (js ''/home/u/app.jks''))"
    by code_simp
  then have h: "promptAsync (buildQuestionObject keystore_question None) ?w
     = (Inr (JString (js ''/home/u/app.jks'')),
        snd (promptAsync (buildQuestionObject keystore_question None) ?w))"
    by (simp add: prod_eq_iff)
  have "fst (promptAsync (buildQuestionObject keystore_question None) ?l)
          = Inr (JString (js ''/home/u/locked.jks''))"
    by code_simp
  then have g: "promptAsync (buildQuestionObject keystore_question None) ?l
     = (Inr (JString (js ''/home/u/locked.jks'')),
        snd (promptAsync (buildQuestionObject keystore_question None) ?l))"
    by (simp add: prod_eq_iff)
  have "fst (promptAsync (buildQuestionObject password_question None) ?v)
          = Inr (JString (js ''s3cret''))"
    by code_simp
  then have k: "promptAsync (buildQuestionObject password_question None) ?v
     = (Inr (JString (js ''s3cret'')), snd (promptAsync (buildQuestionObject password_question None) ?v))"
    by (simp add: prod_eq_iff)
  have e: "fst (askQuestionAndProcessAnswerAsync keystore_question None ?w) = Inr (js ''TWFu'')"
    by code_simp
  have el: "fst (askQuestionAndProcessAnswerAsync keystore_question None ?l)
              = Inl (FsError (js ''EACCES''))"
    by code_simp
  have tf: "qtype keystore_question = Q_file" "qtype password_question \<noteq> Q_file"
    by (simp_all add: keystore_question_def password_question_def)
  have s: "\<exists>stats. fs_stat ?w (js ''/home/u/app.jks'') = Inr stats \<and> isFile stats"
    using stored_answer [OF h, THEN conjunct1] tf(1) by blast
  have p: "askQuestionAndProcessAnswerAsync password_question None ?v
       = (Inr (js ''s3cret''), snd (promptAsync (buildQuestionObject password_question None) ?v))"
    using stored_answer [OF k, THEN conjunct2] tf(2) by blast
  from h s e g el k p show ?thesis by blast
qed

section \<open>Defaults of the prompts\<close>

lemma askAll_asked:
  "\<exists>n. asked (snd (askAll qs I acc w))
          = asked w @ map (\<lambda>q. buildQuestionObject q (I (field q))) (take n qs)"
proof (induction qs arbitrary: acc w)
  case Nil
  show ?case by simp
next
  case (Cons q qs)
  let ?w1 = "snd (askQuestionAndProcessAnswerAsync q (I (field q)) w)"
  have a1: "asked ?w1 = asked w @ [buildQuestionObject q (I (field q))]"
    by (simp add: askQuestion_world promptAsync_asked)
  show ?case
  proof (cases "fst (askQuestionAndProcessAnswerAsync q (I (field q)) w)")
    case (Inl e)
    then have "snd (askAll (q # qs) I acc w) = ?w1"
      by (cases "askQuestionAndProcessAnswerAsync q (I (field q)) w") simp
    with a1 have "asked (snd (askAll (q # qs) I acc w))
        = asked w @ map (\<lambda>q. buildQuestionObject q (I (field q))) (take 1 (q # qs))" by simp
    then show ?thesis by blast
  next
    case (Inr a)
    then have eq: "snd (askAll (q # qs) I acc w) = snd (askAll qs I (assign acc (field q) a) ?w1)"
      by (cases "askQuestionAndProcessAnswerAsync q (I (field q)) w") simp
    from Cons.IH [of "assign acc (field q) a" ?w1] obtain n where
      "asked (snd (askAll qs I (assign acc (field q) a) ?w1))
         = asked ?w1 @ map (\<lambda>q. buildQuestionObject q (I (field q))) (take n qs)" by blast
    with eq a1 have "asked (snd (askAll (q # qs) I acc w))
        = asked w @ map (\<lambda>q. buildQuestionObject q (I (field q))) (take (Suc n) (q # qs))" by simp
    then show ?thesis by blast
  qed
qed

text \<open>
  C6. The prompt built for a question carries the initial value handed in only when the
  question's type is \<open>jsstring\<close>, and none for \<open>password\<close> and \<open>file\<close>; for those two types
  asking the question goes the same way whatever initial value is handed in. Asking a
  question issues exactly that prompt, and the prompts \<open>getCredentialsFromUserAsync\<close>
  issues are those of the schema's questions in order (up to the first failure), each
  built with \<open>initialValues[field]\<close>.
\<close>

theorem initial_only_for_string:
  "initial (buildQuestionObject q iv) = (if qtype q = Q_string then iv else None)
   \<and> askQuestionAndProcessAnswerAsync q iv w
       = askQuestionAndProcessAnswerAsync q (if qtype q = Q_string then iv else None) w
   \<and> asked (snd (askQuestionAndProcessAnswerAsync q iv w)) = asked w @ [buildQuestionObject q iv]
   \<and> (\<exists>n. asked (snd (getCredentialsFromUserAsync S I w))
            = asked w @ map (\<lambda>q. buildQuestionObject q (I (field q))) (take n (questions S)))"
proof -
  have 1: "initial (buildQuestionObject q iv) = (if qtype q = Q_string then iv else None)"
    by (simp add: buildQuestionObject_def split: question_type.splits)
  have "buildQuestionObject q iv = buildQuestionObject q (if qtype q = Q_string then iv else None)"
    by (simp add: buildQuestionObject_def split: question_type.splits)
  then have 2: "askQuestionAndProcessAnswerAsync q iv w
       = askQuestionAndProcessAnswerAsync q (if qtype q = Q_string then iv else None) w"
    by (simp add: askQuestionAndProcessAnswerAsync_def)
  have 3: "asked (snd (askQuestionAndProcessAnswerAsync q iv w)) = asked w @ [buildQuestionObject q iv]"
    by (simp add: askQuestion_world promptAsync_asked)
  have "snd (getCredentialsFromUserAsync S I w) = snd (askAll (questions S) I Map.empty w)"
    by (simp add: getCredentialsFromUserAsync_def split: prod.splits sum.splits option.splits)
  with askAll_asked [of "questions S" I Map.empty w]
  have 4: "\<exists>n. asked (snd (getCredentialsFromUserAsync S I w))
            = asked w @ map (\<lambda>q. buildQuestionObject q (I (field q))) (take n (questions S))"
    by simp
  from 1 2 3 4 show ?thesis by blast
qed

theorem initial_only_for_string_witness:
  "initial (buildQuestionObject alias_question (Some (js ''release''))) = Some (js ''release'')
   \<and> initial (buildQuestionObject password_question (Some (js ''s3cret''))) = None
   \<and> initial (buildQuestionObject keystore_question (Some (js ''/home/u/app.jks''))) = None
   \<and> askQuestionAndProcessAnswerAsync password_question (Some (js ''s3cret'')) (sample_world [Typed []])
       = askQuestionAndProcessAnswerAsync password_question None (sample_world [Typed []])
   \<and> fst (askQuestionAndProcessAnswerAsync password_question (Some (js ''s3cret'')) (sample_world [Typed []]))
       = Inl PromptAborted
   \<and> fst (askQuestionAndProcessAnswerAsync alias_question (Some (js ''release'')) (sample_world [Typed []]))
       = Inr (js ''release'')"
proof -
  have tf: "qtype alias_question = Q_string" "qtype password_question \<noteq> Q_string"
    "qtype keystore_question \<noteq> Q_string"
    by (simp_all add: alias_question_def password_question_def keystore_question_def)
  have e1: "fst (askQuestionAndProcessAnswerAsync password_question None (sample_world [Typed []]))
       = Inl PromptAborted"
    by code_simp
  have e2: "fst (askQuestionAndProcessAnswerAsync alias_question (Some (js ''release'')) (sample_world [Typed []]))
       = Inr (js ''release'')"
    by code_simp
  note a = initial_only_for_string [of alias_question "Some (js ''release'')" "sample_world [Typed []]"
               sample_schema Map.empty, THEN conjunct1]
  note p = initial_only_for_string [of password_question "Some (js ''s3cret'')" "sample_world [Typed []]"
               sample_schema Map.empty]
  note k = initial_only_for_string [of keystore_question "Some (js ''/home/u/app.jks'')"
               "sample_world [Typed []]" sample_schema Map.empty, THEN conjunct1]
  show ?thesis
    using tf e1 e2 a p [THEN conjunct1] p [THEN conjunct2, THEN conjunct1] k
    by simp
qed

section \<open>Formatting a path\<close>

lemma slash_not_space: "\<not> is_space 0x2F"
  by (simp add: is_space_def)

text \<open>
  Trimming an absolute path leaves an absolute path: the input without the white space
  at its end, which is the input itself when its last code unit is not white space.
\<close>

lemma js_trim_absolute:
  assumes "isAbsolute p"
  shows "isAbsolute (js_trim p)"
    and "p = js_trim p @ rev (takeWhile is_space (rev p))"
    and "\<not> is_space (last (js_trim p))"
    and "\<not> is_space (last p) \<Longrightarrow> js_trim p = p"
proof -
  from assms obtain rest where p: "p = 0x2F # rest"
    by (cases p) (auto simp: isAbsolute_def)
  have lead: "dropWhile is_space p = p"
    using slash_not_space by (simp add: p)
  then have trim: "js_trim p = rev (dropWhile is_space (rev p))"
    by (simp add: js_trim_def)
  have ne: "dropWhile is_space (rev p) \<noteq> []"
    using slash_not_space by (simp add: p dropWhile_append3)
  have "dropWhile is_space (rev p) = dropWhile is_space (rev rest) @ [0x2F]"
    using slash_not_space by (simp add: p dropWhile_append3)
  then have "js_trim p = 0x2F # rev (dropWhile is_space (rev rest))"
    by (simp add: trim)
  then show "isAbsolute (js_trim p)" by (simp add: isAbsolute_def)
  have "rev (takeWhile is_space (rev p) @ dropWhile is_space (rev p)) = rev (rev p)"
    by (simp only: takeWhile_dropWhile_id)
  then have "rev (dropWhile is_space (rev p)) @ rev (takeWhile is_space (rev p)) = p"
    by (simp only: rev_append rev_rev_ident)
  then show "p = js_trim p @ rev (takeWhile is_space (rev p))"
    by (simp only: trim)
  have "last (js_trim p) = hd (dropWhile is_space (rev p))"
    using ne by (simp add: trim last_rev)
  then show "\<not> is_space (last (js_trim p))"
    using ne hd_dropWhile [of is_space "rev p"] by simp
  show "js_trim p = p" if "\<not> is_space (last p)"
  proof -
    have "p \<noteq> []" by (simp add: p)
    then have h: "hd (rev p) = last p" by (simp add: hd_rev)
    obtain x xs where r: "rev p = x # xs" using \<open>p \<noteq> []\<close> by (cases "rev p") auto
    with h that have "\<not> is_space x" by simp
    then have "dropWhile is_space (rev p) = rev p" by (simp add: r)
    then show ?thesis by (simp add: trim)
  qed
qed

lemma untildify_absolute: "isAbsolute p \<Longrightarrow> untildify h p = p"
  by (cases p) (auto simp: untildify_def isAbsolute_def)

lemma untildify_examples:
  "untildify (js ''/home/u'') (js ''~/foo.txt'') = js ''/home/u/foo.txt''
   \<and> untildify (js ''/home/u'') (js ''~'') = js ''/home/u''
   \<and> untildify (js ''/home/u'') (js ''~user/foo.txt'') = js ''~user/foo.txt''
   \<and> untildify [] (js ''~/foo.txt'') = js ''~/foo.txt''
   \<and> untildify (js ''/h$&$$'') (js ''~/f'') = js ''/h~$/f''"
  by code_simp

lemma path_resolve_absolute: "isAbsolute (path_resolve c p)"
  by (simp add: path_resolve_def isAbsolute_def)

text \<open>
  C5, as stated, fails for an absolute path that ends in white space: the formatting
  step trims its input first, so such an input does not come back unchanged.
\<close>

theorem produceAbsolutePath_unchanged_counterexample:
  "isAbsolute (js ''/abs/foo.txt '')
   \<and> produceAbsolutePath (sample_world []) (js ''/abs/foo.txt '') \<noteq> js ''/abs/foo.txt ''"
  by code_simp

text \<open>
  C5, amended. For every input path string, the formatting step trims the white space
  around it, expands a leading \<open>~\<close> to the home directory, and resolves the result
  against the current working directory when it is not already absolute, so what it
  returns is always an absolute path; for every input that is already an absolute path
  it returns the input without the white space at its end, which is the input unchanged
  when it does not end in white space.
\<close>

theorem produceAbsolutePath_resolves:
  "isAbsolute (produceAbsolutePath w p)
   \<and> produceAbsolutePath w p
       = (if isAbsolute (untildify (homedir w) (js_trim p)) then untildify (homedir w) (js_trim p)
          else path_resolve (cwd w) (untildify (homedir w) (js_trim p)))
   \<and> (isAbsolute p \<longrightarrow>
         produceAbsolutePath w p = js_trim p
         \<and> (\<exists>ws. p = produceAbsolutePath w p @ ws \<and> (\<forall>c\<in>set ws. is_space c))
         \<and> \<not> is_space (last (produceAbsolutePath w p)))
   \<and> (isAbsolute p \<and> \<not> is_space (last p) \<longrightarrow> produceAbsolutePath w p = p)"
proof -
  have 1: "isAbsolute (produceAbsolutePath w p)"
    by (simp add: produceAbsolutePath_def Let_def path_resolve_absolute)
  have 2: "produceAbsolutePath w p
       = (if isAbsolute (untildify (homedir w) (js_trim p)) then untildify (homedir w) (js_trim p)
          else path_resolve (cwd w) (untildify (homedir w) (js_trim p)))"
    by (simp add: produceAbsolutePath_def Let_def)
  have eq: "produceAbsolutePath w p = js_trim p" if "isAbsolute p"
  proof -
    have "isAbsolute (js_trim p)" using that by (rule js_trim_absolute(1))
    then show ?thesis by (simp add: produceAbsolutePath_def Let_def untildify_absolute)
  qed
  have 3: "isAbsolute p \<longrightarrow>
         produceAbsolutePath w p = js_trim p
         \<and> (\<exists>ws. p = produceAbsolutePath w p @ ws \<and> (\<forall>c\<in>set ws. is_space c))
         \<and> \<not> is_space (last (produceAbsolutePath w p))"
  proof
    assume a: "isAbsolute p"
    have "\<forall>c\<in>set (rev (takeWhile is_space (rev p))). is_space c"
      by (auto dest: set_takeWhileD)
    with js_trim_absolute(2) [OF a]
    have "\<exists>ws. p = js_trim p @ ws \<and> (\<forall>c\<in>set ws. is_space c)" by blast
    with eq [OF a] js_trim_absolute(3) [OF a]
    show "produceAbsolutePath w p = js_trim p
         \<and> (\<exists>ws. p = produceAbsolutePath w p @ ws \<and> (\<forall>c\<in>set ws. is_space c))
         \<and> \<not> is_space (last (produceAbsolutePath w p))" by simp
  qed
  have 4: "isAbsolute p \<and> \<not> is_space (last p) \<longrightarrow> produceAbsolutePath w p = p"
    using eq js_trim_absolute(4) by auto
  from 1 2 3 4 show ?thesis by blast
qed

theorem produceAbsolutePath_resolves_witness:
  "isAbsolute (js ''/abs/foo.txt '')
   \<and> produceAbsolutePath (sample_world []) (js ''/abs/foo.txt '') = js ''/abs/foo.txt''
   \<and> produceAbsolutePath (sample_world []) (js ''/abs/foo.txt'' @ [0xA0, 0x2028])
       = js ''/abs/foo.txt''
   \<and> isAbsolute (js ''/abs/foo.txt'') \<and> \<not> is_space (last (js ''/abs/foo.txt''))
   \<and> produceAbsolutePath (sample_world []) (js ''/abs/foo.txt'') = js ''/abs/foo.txt''
   \<and> produceAbsolutePath (sample_world []) (js ''~/foo.txt'') = js ''/home/u/foo.txt''
   \<and> produceAbsolutePath (sample_world []) (js ''relative/foo.txt'') = js ''/work/relative/foo.txt''
   \<and> produceAbsolutePath (sample_world []) (0xFEFF # js ''/abs/x'') = js ''/abs/x''
   \<and> isAbsolute (produceAbsolutePath (sample_world []) (js ''relative/foo.txt''))"
proof -
  have a: "isAbsolute (js ''/abs/foo.txt '')" and b: "isAbsolute (js ''/abs/foo.txt'')"
    by (simp_all add: isAbsolute_def js_def)
  have l: "\<not> is_space (last (js ''/abs/foo.txt''))" by code_simp
  have t1: "js_trim (js ''/abs/foo.txt '') = js ''/abs/foo.txt''" by code_simp
  have e0: "produceAbsolutePath (sample_world []) (js ''/abs/foo.txt'' @ [0xA0, 0x2028])
       = js ''/abs/foo.txt''" by code_simp
  have e1: "produceAbsolutePath (sample_world []) (js ''~/foo.txt'') = js ''/home/u/foo.txt''"
    by code_simp
  have e2: "produceAbsolutePath (sample_world []) (js ''relative/foo.txt'')
              = js ''/work/relative/foo.txt''"
    by code_simp
  have e3: "produceAbsolutePath (sample_world []) (0xFEFF # js ''/abs/x'') = js ''/abs/x''"
    by code_simp
  note r1 = produceAbsolutePath_resolves [of "sample_world []" "js ''/abs/foo.txt ''",
              THEN conjunct2, THEN conjunct2, THEN conjunct1]
  note r2 = produceAbsolutePath_resolves [of "sample_world []" "js ''/abs/foo.txt''",
              THEN conjunct2, THEN conjunct2, THEN conjunct2]
  note r3 = produceAbsolutePath_resolves [of "sample_world []" "js ''relative/foo.txt''",
              THEN conjunct1]
  have c1: "produceAbsolutePath (sample_world []) (js ''/abs/foo.txt '') = js ''/abs/foo.txt''"
    using r1 a t1 by simp
  have c2: "produceAbsolutePath (sample_world []) (js ''/abs/foo.txt'') = js ''/abs/foo.txt''"
    using r2 b l by simp
  from a b l c1 c2 e0 e1 e2 e3 r3 show ?thesis by blast
qed

section \<open>The job assembler\<close>

text \<open>
  C7. For every build context whose workflow is neither \<open>Generic\<close> nor \<open>Managed\<close>,
  \<open>prepareJobAsync\<close> fails with the internal error and returns no job, whatever the
  collaborators (the sanitizer among them) would do.
\<close>

theorem prepareJobAsync_unknown_workflow:
  assumes "workflow (buildProfile ctx) \<noteq> Generic" and "workflow (buildProfile ctx) \<noteq> Managed"
  shows "prepareJobAsync env ctx jobData = Inl (Error (js ''Unknown workflow. Shouldn't happen''))
         \<and> (\<forall>job. prepareJobAsync env ctx jobData \<noteq> Inr job)"
  using assms by (simp add: prepareJobAsync_def)

theorem prepareJobAsync_unknown_workflow_witness:
  "workflow (buildProfile (sample_android_ctx (OtherWorkflow (js ''custom'')))) \<noteq> Generic
   \<and> workflow (buildProfile (sample_android_ctx (OtherWorkflow (js ''custom'')))) \<noteq> Managed
   \<and> prepareJobAsync sample_job_env (sample_android_ctx (OtherWorkflow (js ''custom'')))
        (sample_job_data None)
      = Inl (Error (js ''Unknown workflow. Shouldn't happen''))"
proof -
  have g: "workflow (buildProfile (sample_android_ctx (OtherWorkflow (js ''custom'')))) \<noteq> Generic"
    and m: "workflow (buildProfile (sample_android_ctx (OtherWorkflow (js ''custom'')))) \<noteq> Managed"
    by (simp_all add: sample_android_ctx_def)
  from g m prepareJobAsync_unknown_workflow [OF g m, of sample_job_env "sample_job_data None"]
  show ?thesis by blast
qed

lemma prepareGenericJobAsync_secrets:
  "prepareGenericJobAsync env ctx jobData profile = Inr job \<Longrightarrow>
   \<exists>common. prepareJobCommonAsync env ctx jobData = Inr common \<and> secrets job = secrets common"
  by (auto simp: prepareGenericJobAsync_def CommonJobProperties.extend_def PartialJob.fields_def
      split: sum.splits)

lemma prepareManagedJobAsync_secrets:
  "prepareManagedJobAsync env ctx jobData profile = Inr job \<Longrightarrow>
   \<exists>common. prepareJobCommonAsync env ctx jobData = Inr common \<and> secrets job = secrets common"
  by (auto simp: prepareManagedJobAsync_def CommonJobProperties.extend_def PartialJob.fields_def
      split: sum.splits)

lemma prepareJobCommonAsync_buildCredentials:
  "prepareJobCommonAsync env ctx jobData = Inr common \<Longrightarrow>
   buildCredentials (secrets common)
     = (case credentials jobData of
          None \<Rightarrow> None
        | Some c \<Rightarrow>
            Some \<lparr>job_keystore =
                    \<lparr>dataBase64 = keystore (credentials_keystore c),
                     job_keystorePassword = keystorePassword (credentials_keystore c),
                     job_keyAlias = keyAlias (credentials_keystore c),
                     job_keyPassword = keyPassword (credentials_keystore c)\<rparr>\<rparr>)"
  by (auto simp: prepareJobCommonAsync_def split: sum.splits)

text \<open>
  C8. In the common job properties, and so in the job of either workflow that is handed
  to the sanitizer, \<open>secrets.buildCredentials\<close> is present exactly when
  \<open>jobData.credentials\<close> is, and then its keystore is the credentials' keystore copied
  field for field: \<open>dataBase64\<close> from \<open>keystore\<close>, and \<open>keystorePassword\<close>, \<open>keyAlias\<close>,
  \<open>keyPassword\<close> from the fields of the same names.
\<close>

theorem buildCredentials_copied:
  assumes "prepareJobCommonAsync env ctx jobData = Inr common
           \<or> prepareGenericJobAsync env ctx jobData profile = Inr job \<and> secrets common = secrets job
           \<or> prepareManagedJobAsync env ctx jobData profile = Inr job \<and> secrets common = secrets job"
  shows "(buildCredentials (secrets common) \<noteq> None) = (credentials jobData \<noteq> None)
         \<and> (\<forall>c. credentials jobData = Some c \<longrightarrow>
               buildCredentials (secrets common)
                 = Some \<lparr>job_keystore =
                          \<lparr>dataBase64 = keystore (credentials_keystore c),
                           job_keystorePassword = keystorePassword (credentials_keystore c),
                           job_keyAlias = keyAlias (credentials_keystore c),
                           job_keyPassword = keyPassword (credentials_keystore c)\<rparr>\<rparr>)"
proof -
  from assms obtain common' where
    c: "prepareJobCommonAsync env ctx jobData = Inr common'" and s: "secrets common = secrets common'"
    using prepareGenericJobAsync_secrets [of env ctx jobData profile job]
      prepareManagedJobAsync_secrets [of env ctx jobData profile job]
    by auto
  from prepareJobCommonAsync_buildCredentials [OF c] s show ?thesis
    by (auto split: option.splits)
qed

theorem buildCredentials_copied_witness:
  "(\<exists>job. prepareGenericJobAsync sample_job_env (sample_android_ctx Generic)
            (sample_job_data (Some sample_credentials)) (buildProfile (sample_android_ctx Generic))
          = Inr job
        \<and> buildCredentials (secrets job)
            = Some \<lparr>job_keystore =
                     \<lparr>dataBase64 = js ''BASE64'', job_keystorePassword = js ''p1'', job_keyAlias = js ''a'',
                      job_keyPassword = js ''p2''\<rparr>\<rparr>)
   \<and> (\<exists>job. prepareGenericJobAsync sample_job_env (sample_android_ctx Generic)
            (sample_job_data None) (buildProfile (sample_android_ctx Generic))
          = Inr job
        \<and> buildCredentials (secrets job) = None)"
proof -
  let ?ctx = "sample_android_ctx Generic"
  have "\<not> isl (prepareGenericJobAsync sample_job_env ?ctx
            (sample_job_data (Some sample_credentials)) (buildProfile ?ctx))"
    by code_simp
  then obtain job where j: "prepareGenericJobAsync sample_job_env ?ctx
            (sample_job_data (Some sample_credentials)) (buildProfile ?ctx) = Inr job"
    by (cases "prepareGenericJobAsync sample_job_env ?ctx
            (sample_job_data (Some sample_credentials)) (buildProfile ?ctx)") auto
  have "\<not> isl (prepareGenericJobAsync sample_job_env ?ctx
            (sample_job_data None) (buildProfile ?ctx))"
    by code_simp
  then obtain job0 where j0: "prepareGenericJobAsync sample_job_env ?ctx
            (sample_job_data None) (buildProfile ?ctx) = Inr job0"
    by (cases "prepareGenericJobAsync sample_job_env ?ctx
            (sample_job_data None) (buildProfile ?ctx)") auto
  have c: "credentials (sample_job_data (Some sample_credentials)) = Some sample_credentials"
    and c0: "credentials (sample_job_data None) = None"
    by (simp_all add: sample_job_data_def)
  have "buildCredentials (secrets job)
            = Some \<lparr>job_keystore =
                     \<lparr>dataBase64 = js ''BASE64'', job_keystorePassword = js ''p1'', job_keyAlias = js ''a'',
                      job_keyPassword = js ''p2''\<rparr>\<rparr>"
    using buildCredentials_copied [of sample_job_env ?ctx "sample_job_data (Some sample_credentials)"
        "CommonJobProperties.truncate job" "buildProfile ?ctx" job] j c
    by (simp add: CommonJobProperties.truncate_def sample_credentials_def)
  moreover have "buildCredentials (secrets job0) = None"
    using buildCredentials_copied [of sample_job_env ?ctx "sample_job_data None"
        "CommonJobProperties.truncate job0" "buildProfile ?ctx" job0] j0 c0
    by (simp add: CommonJobProperties.truncate_def)
  ultimately show ?thesis using j j0 by blast
qed

section \<open>The scheme resolver\<close>

lemma first_of_filter_sorted:
  assumes "sorted xs" and "filter P xs = y # ys"
  shows "y \<in> set xs \<and> P y \<and> (\<forall>x\<in>set xs. P x \<longrightarrow> y \<le> x)"
proof -
  have mem: "y \<in> set (filter P xs)" using assms(2) by simp
  have "sorted (filter P xs)" using assms(1) by (rule sorted_wrt_filter)
  then have least: "\<forall>x\<in>set ys. y \<le> x" using assms(2) by simp
  have "\<forall>x\<in>set xs. P x \<longrightarrow> y \<le> x"
  proof (intro ballI impI)
    fix x assume "x \<in> set xs" and "P x"
    then have "x \<in> set (filter P xs)" by simp
    then have "x = y \<or> x \<in> set ys" using assms(2) by simp
    with least show "y \<le> x" by auto
  qed
  with mem show ?thesis by simp
qed

lemma first_of_sorted:
  assumes "sorted xs" and "xs = y # ys"
  shows "y \<in> set xs \<and> (\<forall>x\<in>set xs. y \<le> x)"
  using assms by auto

text \<open>
  C9. For every non-empty list of discovered scheme names: a list of one element gives
  that element, with no prompt and nothing logged; a list of more than one element in
  non-interactive mode gives, without a prompt, the least name in lexicographic order
  (on code units, as lodash's \<open>sortBy\<close> compares) among those that do not contain
  \<open>tvOS\<close>, and the least name of all when every name contains it.
\<close>

theorem resolveSchemeAsync_policy:
  assumes "getSchemesFromXcodeproj env (projectDir (commandCtx ctx)) = Inr schemes"
    and "schemes \<noteq> []"
  shows "(length schemes = 1 \<longrightarrow> resolveSchemeAsync env ctx w = (Inr (Some (hd schemes)), w))
         \<and> (1 < length schemes \<and> nonInteractive (commandCtx ctx) \<longrightarrow>
              (\<exists>s w'. resolveSchemeAsync env ctx w = (Inr (Some s), w')
                 \<and> asked w' = asked w \<and> script w' = script w
                 \<and> s \<in> set schemes
                 \<and> ((\<exists>x\<in>set schemes. \<not> str_includes x (js ''tvOS'')) \<longrightarrow>
                      \<not> str_includes s (js ''tvOS'')
                      \<and> (\<forall>x\<in>set schemes. \<not> str_includes x (js ''tvOS'') \<longrightarrow> s \<le> x))
                 \<and> ((\<forall>x\<in>set schemes. str_includes x (js ''tvOS'')) \<longrightarrow>
                      (\<forall>x\<in>set schemes. s \<le> x))))"
proof (intro conjI impI)
  assume "length schemes = 1"
  then obtain x where "schemes = [x]" by (cases schemes) auto
  then show "resolveSchemeAsync env ctx w = (Inr (Some (hd schemes)), w)"
    using assms(1) by (simp add: resolveSchemeAsync_def index0_def)
next
  assume multi: "1 < length schemes \<and> nonInteractive (commandCtx ctx)"
  let ?sorted = "sortBy schemes"
  let ?without = "filter (\<lambda>i. \<not> str_includes i (js ''tvOS'')) ?sorted"
  let ?chosen = "if length ?without > 0 then index0 ?without else index0 ?sorted"
  have srt: "sorted ?sorted" and st: "set ?sorted = set schemes"
    by (simp_all add: sortBy_def)
  have ne: "?sorted \<noteq> []" using assms(2) st by (metis set_empty)
  obtain w' where run: "resolveSchemeAsync env ctx w = (Inr ?chosen, w')"
    and tr: "asked w' = asked w" "script w' = script w"
    using assms(1) multi by (simp add: resolveSchemeAsync_def Let_def)
  show "\<exists>s w'. resolveSchemeAsync env ctx w = (Inr (Some s), w')
                 \<and> asked w' = asked w \<and> script w' = script w
                 \<and> s \<in> set schemes
                 \<and> ((\<exists>x\<in>set schemes. \<not> str_includes x (js ''tvOS'')) \<longrightarrow>
                      \<not> str_includes s (js ''tvOS'')
                      \<and> (\<forall>x\<in>set schemes. \<not> str_includes x (js ''tvOS'') \<longrightarrow> s \<le> x))
                 \<and> ((\<forall>x\<in>set schemes. str_includes x (js ''tvOS'')) \<longrightarrow>
                      (\<forall>x\<in>set schemes. s \<le> x))"
  proof (cases ?without)
    case Nil
    then have all: "\<forall>x\<in>set schemes. str_includes x (js ''tvOS'')"
      using st by (auto simp: filter_empty_conv)
    from ne obtain y ys where ys: "?sorted = y # ys" by (cases ?sorted) auto
    from first_of_sorted [OF srt ys] st
    have y: "y \<in> set schemes" "\<forall>x\<in>set schemes. y \<le> x" by auto
    have "?chosen = Some y" using Nil ys by (simp add: index0_def)
    with run have "resolveSchemeAsync env ctx w = (Inr (Some y), w')" by simp
    with tr y all show ?thesis by blast
  next
    case (Cons y ys)
    from first_of_filter_sorted [OF srt Cons] st
    have y: "y \<in> set schemes" "\<not> str_includes y (js ''tvOS'')"
      "\<forall>x\<in>set schemes. \<not> str_includes x (js ''tvOS'') \<longrightarrow> y \<le> x" by auto
    have "?chosen = Some y" using Cons by (simp add: index0_def)
    with run have "resolveSchemeAsync env ctx w = (Inr (Some y), w')" by simp
    with tr y show ?thesis by blast
  qed
qed

theorem resolveSchemeAsync_policy_witness:
  "resolveSchemeAsync (sample_ios_env [(js ''Only'')]) (sample_ios_ctx True) (sample_world [])
     = (Inr (Some (js ''Only'')), sample_world [])
   \<and> (\<exists>s w'. resolveSchemeAsync (sample_ios_env [(js ''AppTV''), (js ''App'')]) (sample_ios_ctx True)
                 (sample_world []) = (Inr (Some s), w')
         \<and> asked w' = asked (sample_world [])
         \<and> s \<in> set [(js ''AppTV''), (js ''App'')])
   \<and> fst (resolveSchemeAsync (sample_ios_env [(js ''AppTV''), (js ''App'')]) (sample_ios_ctx True)
            (sample_world [])) = Inr (Some (js ''App''))
   \<and> fst (resolveSchemeAsync (sample_ios_env [(js ''App-tvOS''), (js ''App'')]) (sample_ios_ctx True)
            (sample_world [])) = Inr (Some (js ''App''))
   \<and> fst (resolveSchemeAsync (sample_ios_env [(js ''B-tvOS''), (js ''A-tvOS'')]) (sample_ios_ctx True)
            (sample_world [])) = Inr (Some (js ''A-tvOS''))
   \<and> fst (resolveSchemeAsync (sample_ios_env [[0xFF5E], [0xD83D, 0xDE00]]) (sample_ios_ctx True)
            (sample_world [])) = Inr (Some [0xD83D, 0xDE00])"
proof -
  have g1: "getSchemesFromXcodeproj (sample_ios_env [(js ''Only'')])
              (projectDir (commandCtx (sample_ios_ctx True))) = Inr [(js ''Only'')]"
    and g2: "getSchemesFromXcodeproj (sample_ios_env [(js ''AppTV''), (js ''App'')])
              (projectDir (commandCtx (sample_ios_ctx True))) = Inr [(js ''AppTV''), (js ''App'')]"
    by (simp_all add: sample_ios_env_def)
  have n: "nonInteractive (commandCtx (sample_ios_ctx True))"
    by (simp add: sample_ios_ctx_def sample_command_ctx_def)
  have a: "resolveSchemeAsync (sample_ios_env [(js ''Only'')]) (sample_ios_ctx True) (sample_world [])
     = (Inr (Some (js ''Only'')), sample_world [])"
    using resolveSchemeAsync_policy [OF g1, of "sample_world []", THEN conjunct1] by simp
  have b: "\<exists>s w'. resolveSchemeAsync (sample_ios_env [(js ''AppTV''), (js ''App'')]) (sample_ios_ctx True)
                 (sample_world []) = (Inr (Some s), w')
         \<and> asked w' = asked (sample_world [])
         \<and> s \<in> set [(js ''AppTV''), (js ''App'')]"
    using resolveSchemeAsync_policy [OF g2, of "sample_world []", THEN conjunct2] n by auto
  have c: "fst (resolveSchemeAsync (sample_ios_env [(js ''AppTV''), (js ''App'')]) (sample_ios_ctx True)
            (sample_world [])) = Inr (Some (js ''App''))"
    by code_simp
  have d: "fst (resolveSchemeAsync (sample_ios_env [(js ''App-tvOS''), (js ''App'')]) (sample_ios_ctx True)
            (sample_world [])) = Inr (Some (js ''App''))"
    by code_simp
  have e: "fst (resolveSchemeAsync (sample_ios_env [(js ''B-tvOS''), (js ''A-tvOS'')]) (sample_ios_ctx True)
            (sample_world [])) = Inr (Some (js ''A-tvOS''))"
    by code_simp
  have f: "fst (resolveSchemeAsync (sample_ios_env [[0xFF5E], [0xD83D, 0xDE00]]) (sample_ios_ctx True)
            (sample_world [])) = Inr (Some [0xD83D, 0xDE00])"
    by code_simp
  from a b c d e f show ?thesis by blast
qed

text \<open>
  C10. When scheme discovery yields no candidate and the mode is non-interactive,
  \<open>resolveSchemeAsync\<close> raises no error and asks nothing: it returns \<open>undefined\<close>, logging
  that it chose the \<open>undefined\<close> scheme, and \<open>startIosBuildAsync\<close> hands that value on to
  the build starter as the project's scheme.
\<close>

theorem resolveSchemeAsync_no_candidates:
  assumes "getSchemesFromXcodeproj env (projectDir (commandCtx ctx)) = Inr []"
    and "nonInteractive (commandCtx ctx)"
  shows "\<exists>w'. resolveSchemeAsync env ctx w = (Inr None, w')
           \<and> asked w' = asked w \<and> script w' = script w
           \<and> Info (js ''You've run Expo CLI in non-interactive mode, choosing the undefined scheme.'')
               \<in> set (logged w')
           \<and> (createBuildContext env cmdCtx easConfig projectId = ctx
               \<and> ios_workflow (buildProfile ctx) = Generic
               \<and> scheme (buildProfile ctx) = None
               \<and> syncProjectConfigurationAsync env (projectDir cmdCtx) (exp cmdCtx) = Inr ()
               \<longrightarrow> startIosBuildAsync env cmdCtx easConfig projectId w
                     = startBuildForPlatformAsync env ctx None w')"
proof -
  have m: "js ''You've run Expo CLI in non-interactive mode, choosing the ''
             @ chalk_bold (interpolate None) @ js '' scheme.''
           = js ''You've run Expo CLI in non-interactive mode, choosing the undefined scheme.''"
    by code_simp
  obtain w' where run: "resolveSchemeAsync env ctx w = (Inr None, w')"
    and tr: "asked w' = asked w" "script w' = script w"
    and lg0: "Info (js ''You've run Expo CLI in non-interactive mode, choosing the ''
                    @ chalk_bold (interpolate None) @ js '' scheme.'') \<in> set (logged w')"
    using assms
    by (simp add: resolveSchemeAsync_def Let_def sortBy_def index0_def)
  from lg0 have lg: "Info (js ''You've run Expo CLI in non-interactive mode, choosing the undefined scheme.'')
               \<in> set (logged w')"
    by (simp only: m)
  have "createBuildContext env cmdCtx easConfig projectId = ctx
               \<and> ios_workflow (buildProfile ctx) = Generic
               \<and> scheme (buildProfile ctx) = None
               \<and> syncProjectConfigurationAsync env (projectDir cmdCtx) (exp cmdCtx) = Inr ()
               \<longrightarrow> startIosBuildAsync env cmdCtx easConfig projectId w
                     = startBuildForPlatformAsync env ctx None w'"
    using run by (simp add: startIosBuildAsync_def Let_def)
  with run tr lg show ?thesis by blast
qed

theorem resolveSchemeAsync_no_candidates_witness:
  "getSchemesFromXcodeproj (sample_ios_env []) (projectDir (commandCtx (sample_ios_ctx True))) = Inr []
   \<and> nonInteractive (commandCtx (sample_ios_ctx True))
   \<and> (\<exists>w'. resolveSchemeAsync (sample_ios_env []) (sample_ios_ctx True) (sample_world [])
              = (Inr None, w')
         \<and> asked w' = asked (sample_world [])
         \<and> startIosBuildAsync (sample_ios_env []) (sample_command_ctx True) () (js ''project'')
              (sample_world [])
            = startBuildForPlatformAsync (sample_ios_env []) (sample_ios_ctx True) None w')
   \<and> fst (startIosBuildAsync (sample_ios_env []) (sample_command_ctx True) () (js ''project'')
            (sample_world [])) = Inr (js ''build of scheme undefined'')"
proof -
  have g: "getSchemesFromXcodeproj (sample_ios_env [])
             (projectDir (commandCtx (sample_ios_ctx True))) = Inr []"
    by (simp add: sample_ios_env_def)
  have n: "nonInteractive (commandCtx (sample_ios_ctx True))"
    by (simp add: sample_ios_ctx_def sample_command_ctx_def)
  have pre: "createBuildContext (sample_ios_env []) (sample_command_ctx True) () (js ''project'')
               = sample_ios_ctx True
             \<and> ios_workflow (buildProfile (sample_ios_ctx True)) = Generic
             \<and> scheme (buildProfile (sample_ios_ctx True)) = None
             \<and> syncProjectConfigurationAsync (sample_ios_env [])
                 (projectDir (sample_command_ctx True)) (exp (sample_command_ctx True)) = Inr ()"
    by (simp add: sample_ios_env_def sample_ios_ctx_def)
  have b: "\<exists>w'. resolveSchemeAsync (sample_ios_env []) (sample_ios_ctx True) (sample_world [])
              = (Inr None, w')
         \<and> asked w' = asked (sample_world [])
         \<and> startIosBuildAsync (sample_ios_env []) (sample_command_ctx True) () (js ''project'')
              (sample_world [])
            = startBuildForPlatformAsync (sample_ios_env []) (sample_ios_ctx True) None w'"
    using resolveSchemeAsync_no_candidates [OF g n, of "sample_world []" "sample_command_ctx True"
        "()" "(js ''project'')"] pre
    by blast
  have c: "fst (startIosBuildAsync (sample_ios_env []) (sample_command_ctx True) () (js ''project'')
            (sample_world [])) = Inr (js ''build of scheme undefined'')"
    by code_simp
  from g n b c show ?thesis by blast
qed

end
